theory Spec2Isabelle
  imports Complex_Main
begin

section \<open>JavaScript strings\<close>

text \<open>
  A JavaScript string is modelled as a \<open>string\<close>: a list of 8-bit characters, read as
  the code points U+0000 to U+00FF. Code points above U+00FF (the en dash and the bullet
  that two character classes of the source mention) have no counterpart in this type, so
  every statement below ranges over strings of code points up to U+00FF.
\<close>

definition isDigit :: "char \<Rightarrow> bool" where
  \<comment> \<open>the class \<open>\d\<close>\<close>
  "isDigit c = (c \<in> set ''0123456789'')"

definition isAlpha :: "char \<Rightarrow> bool" where
  \<comment> \<open>the class \<open>[A-Za-z]\<close>\<close>
  "isAlpha c = (c \<in> set ''ABCDEFGHIJKLMNOPQRSTUVWXYZabcdefghijklmnopqrstuvwxyz'')"

definition isSpace :: "char \<Rightarrow> bool" where
  \<comment> \<open>the class \<open>\s\<close>, which is also what \<open>trim\<close> strips: tab, line feed, vertical tab,
      form feed, carriage return, space and the no-break space\<close>
  "isSpace c = (c \<in> set [CHR 0x09, CHR 0x0A, CHR 0x0B, CHR 0x0C, CHR 0x0D, CHR 0x20, CHR 0xA0])"

definition isLineTerminator :: "char \<Rightarrow> bool" where
  \<comment> \<open>what \<open>.\<close> does not match\<close>
  "isLineTerminator c = (c \<in> set [CHR 0x0A, CHR 0x0D])"

definition isUpperChar :: "char \<Rightarrow> bool" where
  \<comment> \<open>A to Z, and the capital letters of U+00C0 to U+00DE (U+00D7 is the multiplication sign)\<close>
  "isUpperChar c = (let n = (of_char c :: nat) in
     (65 \<le> n \<and> n \<le> 90) \<or> (192 \<le> n \<and> n \<le> 222 \<and> n \<noteq> 215))"

definition isLowerChar :: "char \<Rightarrow> bool" where
  \<comment> \<open>a to z, and the small letters of U+00E0 to U+00FE (U+00F7 is the division sign)\<close>
  "isLowerChar c = (let n = (of_char c :: nat) in
     (97 \<le> n \<and> n \<le> 122) \<or> (224 \<le> n \<and> n \<le> 254 \<and> n \<noteq> 247))"

definition toLowerChar :: "char \<Rightarrow> char" where
  \<comment> \<open>a capital letter and its small letter differ in the bit of value 32\<close>
  "toLowerChar c = (if isUpperChar c
     then (case c of Char b0 b1 b2 b3 b4 b5 b6 b7 \<Rightarrow> Char b0 b1 b2 b3 b4 True b6 b7)
     else c)"

definition toUpperChar :: "char \<Rightarrow> char" where
  "toUpperChar c = (if isLowerChar c
     then (case c of Char b0 b1 b2 b3 b4 b5 b6 b7 \<Rightarrow> Char b0 b1 b2 b3 b4 False b6 b7)
     else c)"

definition toLowerCase :: "string \<Rightarrow> string" where
  "toLowerCase s = map toLowerChar s"

definition trim :: "string \<Rightarrow> string" where
  "trim s = rev (dropWhile isSpace (rev (dropWhile isSpace s)))"

fun startsWith :: "string \<Rightarrow> string \<Rightarrow> bool" where
  "startsWith s [] = True"
| "startsWith [] (p # ps) = False"
| "startsWith (c # cs) (p # ps) = (c = p \<and> startsWith cs ps)"

fun includesStr :: "string \<Rightarrow> string \<Rightarrow> bool" where
  "includesStr [] sub = (sub = [])"
| "includesStr (c # cs) sub = (startsWith (c # cs) sub \<or> includesStr cs sub)"

definition padStart :: "nat \<Rightarrow> char \<Rightarrow> string \<Rightarrow> string" where
  "padStart n c s = replicate (n - length s) c @ s"

definition truthy :: "string option \<Rightarrow> bool" where
  \<comment> \<open>a value of type \<open>string | null | undefined\<close> in a condition: the empty string, null and
      undefined are falsy\<close>
  "truthy v = (case v of None \<Rightarrow> False | Some s \<Rightarrow> s \<noteq> [])"

section \<open>Regular expressions\<close>

text \<open>
  The regular expressions of the source are written as terms of \<open>re\<close> and run by a
  backtracking matcher that follows the ECMAScript semantics: \<open>ms r st\<close> lists the states
  in which \<open>r\<close> can end when started in \<open>st\<close>, in the order in which backtracking tries
  them, so that the head of the list is the match that the engine reports. A state is the
  text consumed so far (from the start of the input), the text left, and the captures.
  As in ECMAScript, an iteration of \<open>*\<close> that consumes nothing is rejected.
\<close>

datatype re =
    Cls "char \<Rightarrow> bool"
  | Eps
  | Cat re re
  | Alt re re
  | Star re
  | LazyStar re
  | Grp nat re
  | Bol
  | Eol
  | Ahead re

type_synonym captures = "nat \<Rightarrow> string option"
type_synonym mstate = "string \<times> string \<times> captures"

fun ms :: "re \<Rightarrow> mstate \<Rightarrow> mstate list" where
  "ms (Cls P) (pre, rest, caps) =
     (case rest of [] \<Rightarrow> [] | c # cs \<Rightarrow> if P c then [(pre @ [c], cs, caps)] else [])"
| "ms Eps st = [st]"
| "ms (Cat a b) st = concat (map (ms b) (ms a st))"
| "ms (Alt a b) st = ms a st @ ms b st"
| "ms (Star r) (pre, rest, caps) =
     concat (map (ms (Star r))
        (filter (\<lambda>st'. length (fst (snd st')) < length rest) (ms r (pre, rest, caps))))
     @ [(pre, rest, caps)]"
| "ms (LazyStar r) (pre, rest, caps) =
     (pre, rest, caps) #
     concat (map (ms (LazyStar r))
        (filter (\<lambda>st'. length (fst (snd st')) < length rest) (ms r (pre, rest, caps))))"
| "ms (Grp k r) (pre, rest, caps) =
     map (\<lambda>(pre', rest', caps'). (pre', rest', caps'(k \<mapsto> drop (length pre) pre')))
       (ms r (pre, rest, caps))"
| "ms Bol (pre, rest, caps) = (if pre = [] then [(pre, rest, caps)] else [])"
| "ms Eol (pre, rest, caps) = (if rest = [] then [(pre, rest, caps)] else [])"
| "ms (Ahead r) (pre, rest, caps) =
     (case ms r (pre, rest, caps) of [] \<Rightarrow> [] | (_, _, caps') # _ \<Rightarrow> [(pre, rest, caps')])"

text \<open>The search for the leftmost match: the start moves right one character at a time.\<close>

fun search :: "re \<Rightarrow> string \<Rightarrow> string \<Rightarrow> (nat \<times> mstate) option" where
  "search r pre [] =
     (case ms r (pre, [], Map.empty) of [] \<Rightarrow> None | st # _ \<Rightarrow> Some (length pre, st))"
| "search r pre (c # cs) =
     (case ms r (pre, c # cs, Map.empty) of
        [] \<Rightarrow> search r (pre @ [c]) cs
      | st # _ \<Rightarrow> Some (length pre, st))"

record rmatch =
  m_index :: nat
  m_text :: string
  m_group :: "nat \<Rightarrow> string option"

definition re_match :: "re \<Rightarrow> string \<Rightarrow> rmatch option" where
  \<comment> \<open>\<open>s.match(r)\<close> for a regular expression without the flag g\<close>
  "re_match r s = (case search r [] s of None \<Rightarrow> None
     | Some (i, pre', rest', caps) \<Rightarrow>
         Some \<lparr>m_index = i, m_text = drop i pre', m_group = caps\<rparr>)"

definition re_test :: "re \<Rightarrow> string \<Rightarrow> bool" where
  \<comment> \<open>\<open>r.test(s)\<close>\<close>
  "re_test r s = (search r [] s \<noteq> None)"

definition group :: "rmatch \<Rightarrow> nat \<Rightarrow> string" where
  \<comment> \<open>\<open>m[k]\<close>, for a group that takes part in every match of its expression\<close>
  "group m k = (case m_group m k of Some g \<Rightarrow> g | None \<Rightarrow> [])"

definition ch :: "char \<Rightarrow> re" where
  "ch c = Cls (\<lambda>x. x = c)"

definition chi :: "char \<Rightarrow> re" where
  \<comment> \<open>a character under the flag i: both sides are compared in upper case\<close>
  "chi c = Cls (\<lambda>x. toUpperChar x = toUpperChar c)"

definition seq :: "re list \<Rightarrow> re" where
  "seq rs = foldr Cat rs Eps"

definition lit :: "string \<Rightarrow> re" where
  "lit s = seq (map ch s)"

definition liti :: "string \<Rightarrow> re" where
  "liti s = seq (map chi s)"

definition opt :: "re \<Rightarrow> re" where
  \<comment> \<open>\<open>r?\<close>\<close>
  "opt r = Alt r Eps"

definition many1 :: "re \<Rightarrow> re" where
  \<comment> \<open>\<open>r+\<close>\<close>
  "many1 r = Cat r (Star r)"

definition lazy1 :: "re \<Rightarrow> re" where
  \<comment> \<open>\<open>r+?\<close>\<close>
  "lazy1 r = Cat r (LazyStar r)"

fun exactly :: "nat \<Rightarrow> re \<Rightarrow> re" where
  "exactly 0 r = Eps"
| "exactly (Suc n) r = Cat r (exactly n r)"

fun upTo :: "nat \<Rightarrow> re \<Rightarrow> re" where
  "upTo 0 r = Eps"
| "upTo (Suc n) r = Alt (Cat r (upTo n r)) Eps"

definition rep :: "nat \<Rightarrow> nat \<Rightarrow> re \<Rightarrow> re" where
  \<comment> \<open>\<open>r{m,n}\<close>\<close>
  "rep m n r = Cat (exactly m r) (upTo (n - m) r)"

definition digit :: re where
  "digit = Cls isDigit"

definition alpha :: re where
  "alpha = Cls isAlpha"

definition space :: re where
  "space = Cls isSpace"

section \<open>extractors.ts: parseDate\<close>

definition isoRe :: re where
  \<comment> \<open>\<open>/^\d{4}-\d{2}-\d{2}/\<close>\<close>
  "isoRe = seq [Bol, exactly 4 digit, ch CHR ''-'', exactly 2 digit, ch CHR ''-'', exactly 2 digit]"

definition mdyRe :: re where
  \<comment> \<open>\<open>/(\d{1,2})\/(\d{1,2})\/(\d{4})/\<close>\<close>
  "mdyRe = seq [Grp 1 (rep 1 2 digit), ch CHR ''/'', Grp 2 (rep 1 2 digit), ch CHR ''/'',
                Grp 3 (exactly 4 digit)]"

definition dMyRe :: re where
  \<comment> \<open>\<open>/(\d{1,2})-([A-Za-z]{3})-(\d{4})/\<close>\<close>
  "dMyRe = seq [Grp 1 (rep 1 2 digit), ch CHR ''-'', Grp 2 (exactly 3 alpha), ch CHR ''-'',
                Grp 3 (exactly 4 digit)]"

definition fullRe :: re where
  \<comment> \<open>\<open>/([A-Za-z]+)\s+(\d{1,2}),?\s+(\d{4})/\<close>\<close>
  "fullRe = seq [Grp 1 (many1 alpha), many1 space, Grp 2 (rep 1 2 digit), opt (ch CHR '',''),
                 many1 space, Grp 3 (exactly 4 digit)]"

definition monthsAbbr :: "(string \<times> string) list" where
  "monthsAbbr = [(''jan'', ''01''), (''feb'', ''02''), (''mar'', ''03''), (''apr'', ''04''),
     (''may'', ''05''), (''jun'', ''06''), (''jul'', ''07''), (''aug'', ''08''),
     (''sep'', ''09''), (''oct'', ''10''), (''nov'', ''11''), (''dec'', ''12'')]"

definition monthsFull :: "(string \<times> string) list" where
  "monthsFull = [(''january'', ''01''), (''february'', ''02''), (''march'', ''03''),
     (''april'', ''04''), (''may'', ''05''), (''june'', ''06''), (''july'', ''07''),
     (''august'', ''08''), (''september'', ''09''), (''october'', ''10''),
     (''november'', ''11''), (''december'', ''12'')]"

definition objectLookup :: "(string \<times> string) list \<Rightarrow> string \<Rightarrow> string option" where
  \<comment> \<open>\<open>months[key]\<close> on an object literal, for a key of letters in lower case, as used in a
      condition and in a template string: an own property first; the only property that
      the literal inherits under such a key is \<open>constructor\<close>, a function (truthy) whose
      text in a template string is the one below\<close>
  "objectLookup table key = (case map_of table key of
       Some v \<Rightarrow> Some v
     | None \<Rightarrow> if key = ''constructor'' then Some ''function Object() { [native code] }''
               else None)"

definition dMyBranch :: "string \<Rightarrow> string option" where
  \<comment> \<open>lines 270 to 281: the result returned there, None when control falls through\<close>
  "dMyBranch dateStr = (case re_match dMyRe dateStr of
       None \<Rightarrow> None
     | Some dMyMatch \<Rightarrow>
        (case objectLookup monthsAbbr (toLowerCase (group dMyMatch 2)) of
           None \<Rightarrow> None
         | Some month \<Rightarrow>
             Some (group dMyMatch 3 @ ''-'' @ month @ ''-'' @ padStart 2 CHR ''0'' (group dMyMatch 1))))"

definition fullBranch :: "string \<Rightarrow> string option" where
  \<comment> \<open>lines 283 to 294\<close>
  "fullBranch dateStr = (case re_match fullRe dateStr of
       None \<Rightarrow> None
     | Some fullMatch \<Rightarrow>
        (case objectLookup monthsFull (toLowerCase (group fullMatch 1)) of
           None \<Rightarrow> None
         | Some month \<Rightarrow>
             Some (group fullMatch 3 @ ''-'' @ month @ ''-'' @ padStart 2 CHR ''0'' (group fullMatch 2))))"

definition parseDate :: "string option \<Rightarrow> string option" where
  "parseDate dateStr = (case dateStr of
       None \<Rightarrow> None
     | Some s \<Rightarrow>
         if s = [] then None
         else if re_test isoRe s then Some s
         else (case re_match mdyRe s of
                 Some mdyMatch \<Rightarrow>
                   Some (group mdyMatch 3 @ ''-'' @ padStart 2 CHR ''0'' (group mdyMatch 1)
                         @ ''-'' @ padStart 2 CHR ''0'' (group mdyMatch 2))
               | None \<Rightarrow>
                  (case dMyBranch s of
                     Some r \<Rightarrow> Some r
                   | None \<Rightarrow>
                      (case fullBranch s of
                         Some r \<Rightarrow> Some r
                       | None \<Rightarrow> Some s))))"


section \<open>extractors.ts: parseSalary\<close>

record salary =
  min' :: "string option"
  max' :: "string option"
  raw :: "string option"
  period :: "string option"

definition clsi :: "string \<Rightarrow> re" where
  \<comment> \<open>a character class under the flag i\<close>
  "clsi s = Cls (\<lambda>x. toUpperChar x \<in> set (map toUpperChar s))"

definition salaryNumber :: re where
  \<comment> \<open>\<open>[\d,]+(?:\.\d+)?\<close>\<close>
  "salaryNumber = Cat (many1 (Cls (\<lambda>c. isDigit c \<or> c = CHR '','')))
                      (opt (Cat (ch CHR ''.'') (many1 digit)))"

definition rangeRe :: re where
  \<comment> \<open>\<open>/\$?([\d,]+(?:\.\d+)?)\s*[-\<dots>to]+\s*\$?([\d,]+(?:\.\d+)?)/i\<close>; the class holds the
      hyphen, the en dash (beyond U+00FF) and the letters t and o\<close>
  "rangeRe = seq [opt (ch CHR ''$''), Grp 1 salaryNumber, Star space, many1 (clsi ''-to''),
                  Star space, opt (ch CHR ''$''), Grp 2 salaryNumber]"

definition singleRe :: re where
  \<comment> \<open>\<open>/\$?([\d,]+(?:\.\d+)?)/\<close>\<close>
  "singleRe = seq [opt (ch CHR ''$''), Grp 1 salaryNumber]"

definition removeCommas :: "string \<Rightarrow> string" where
  \<comment> \<open>\<open>.replace(/,/g, '')\<close>\<close>
  "removeCommas s = filter (\<lambda>c. c \<noteq> CHR '','') s"

definition detectPeriod :: "string \<Rightarrow> string option" where
  \<comment> \<open>lines 306 to 311\<close>
  "detectPeriod salaryStr = (let lowerSalary = toLowerCase salaryStr in
     if includesStr lowerSalary ''hour'' then Some ''hourly''
     else if includesStr lowerSalary ''year'' \<or> includesStr lowerSalary ''annual'' then Some ''yearly''
     else if includesStr lowerSalary ''month'' then Some ''monthly''
     else if includesStr lowerSalary ''week'' then Some ''weekly''
     else None)"

definition parseSalary :: "string option \<Rightarrow> salary" where
  "parseSalary salaryStr = (case salaryStr of
       None \<Rightarrow> \<lparr>min' = None, max' = None, raw = None, period = None\<rparr>
     | Some s \<Rightarrow>
         if s = [] then \<lparr>min' = None, max' = None, raw = Some s, period = None\<rparr>
         else (case re_match rangeRe s of
                 Some rangeMatch \<Rightarrow>
                   \<lparr>min' = Some (removeCommas (group rangeMatch 1)),
                    max' = Some (removeCommas (group rangeMatch 2)),
                    raw = Some s, period = detectPeriod s\<rparr>
               | None \<Rightarrow>
                  (case re_match singleRe s of
                     Some singleMatch \<Rightarrow>
                       \<lparr>min' = Some (removeCommas (group singleMatch 1)),
                        max' = Some (removeCommas (group singleMatch 1)),
                        raw = Some s, period = detectPeriod s\<rparr>
                   | None \<Rightarrow> \<lparr>min' = None, max' = None, raw = Some s, period = detectPeriod s\<rparr>)))"

section \<open>Notions that the claims use\<close>




text \<open>
  Two ways to speak about an expression \<open>r\<close> without running it: \<open>rel r R\<close> says that every
  match of \<open>r\<close> consumes a text \<open>g\<close> and changes the captures as \<open>R\<close> allows; \<open>acc r g\<close> says
  that \<open>r\<close> can consume exactly \<open>g\<close>, whatever follows.
\<close>

definition rel :: "re \<Rightarrow> (string \<Rightarrow> captures \<Rightarrow> captures \<Rightarrow> bool) \<Rightarrow> bool" where
  "rel r R = (\<forall>pre rest caps pre' rest' caps'.
      (pre', rest', caps') \<in> set (ms r (pre, rest, caps)) \<longrightarrow>
      (\<exists>g. pre' = pre @ g \<and> rest = g @ rest' \<and> R g caps caps'))"












section \<open>The parsed document and its queries\<close>

text \<open>
  The handlers receive the page as a parsed document and query it with CSS selectors.
  The document is the list of the top nodes of the tree that the parser built; an element
  is referred to by its path, the list of child positions that leads to it, so that two
  queries on one document speak about the same elements. A selection is a list of paths
  in document order. Tag and attribute names are in lower case, as the parser leaves them.
\<close>

datatype node =
    Element string "(string \<times> string) list" "node list"
  | Text string
  | Comment string

type_synonym document = "node list"
type_synonym path = "nat list"

fun children :: "node \<Rightarrow> node list" where
  "children (Element t as kids) = kids"
| "children (Text s) = []"
| "children (Comment s) = []"

fun isElement :: "node \<Rightarrow> bool" where
  "isElement (Element t as kids) = True"
| "isElement (Text s) = False"
| "isElement (Comment s) = False"

fun tagName :: "node \<Rightarrow> string" where
  "tagName (Element t as kids) = t"
| "tagName (Text s) = []"
| "tagName (Comment s) = []"

fun attrOf :: "node \<Rightarrow> string \<Rightarrow> string option" where
  "attrOf (Element t as kids) name = map_of as name"
| "attrOf (Text s) name = None"
| "attrOf (Comment s) name = None"

fun textContent :: "node \<Rightarrow> string" where
  \<comment> \<open>the text of all text nodes below, scripts and styles included, comments excluded\<close>
  "textContent (Element t as kids) = concat (map textContent kids)"
| "textContent (Text s) = s"
| "textContent (Comment s) = []"

fun nodeAt :: "node list \<Rightarrow> path \<Rightarrow> node option" where
  "nodeAt ns [] = None"
| "nodeAt ns [i] = (if i < length ns then Some (ns ! i) else None)"
| "nodeAt ns (i # j # p) = (if i < length ns then nodeAt (children (ns ! i)) (j # p) else None)"

fun pathsFrom :: "nat \<Rightarrow> node list \<Rightarrow> path list" where
  "pathsFrom i [] = []"
| "pathsFrom i (Element t as kids # ns) =
     ([i] # map ((#) i) (pathsFrom 0 kids)) @ pathsFrom (Suc i) ns"
| "pathsFrom i (Text s # ns) = pathsFrom (Suc i) ns"
| "pathsFrom i (Comment s # ns) = pathsFrom (Suc i) ns"

definition elements :: "document \<Rightarrow> path list" where
  \<comment> \<open>the elements of the document, in document order\<close>
  "elements d = pathsFrom 0 d"

text \<open>
  The selectors of the source, as terms: a compound selector is a list of simple
  selectors that must all hold of one element; \<open>Desc a c\<close> is the descendant combinator
  \<open>a c\<close>; a selector list is the list of its alternatives.
\<close>

datatype simple =
    Tag string
  | Class string
  | Ident string
  | AttrEq string string
  | AttrHas string string
  | AttrPre string string
  | Contains string
  | NotSel "complex list"
and complex =
    Compound "simple list"
  | Desc complex "simple list"

type_synonym selector = "complex list"

fun splitOn :: "(char \<Rightarrow> bool) \<Rightarrow> string \<Rightarrow> string \<Rightarrow> string list" where
  \<comment> \<open>the pieces between separators; \<open>cur\<close> is the piece being read\<close>
  "splitOn P cur [] = [cur]"
| "splitOn P cur (c # cs) = (if P c then cur # splitOn P [] cs else splitOn P (cur @ [c]) cs)"

definition classNames :: "node \<Rightarrow> string list" where
  "classNames n = (case attrOf n ''class'' of None \<Rightarrow> []
     | Some v \<Rightarrow> filter (\<lambda>w. w \<noteq> []) (splitOn isSpace [] v))"

definition properPrefixes :: "path \<Rightarrow> path list" where
  \<comment> \<open>the paths of the ancestors\<close>
  "properPrefixes p = map (\<lambda>k. take k p) [1..<length p]"

fun matchSimple :: "document \<Rightarrow> path \<Rightarrow> simple \<Rightarrow> bool"
and matchComplex :: "document \<Rightarrow> path \<Rightarrow> complex \<Rightarrow> bool" where
  "matchSimple d p (Tag t) =
     (case nodeAt d p of Some n \<Rightarrow> isElement n \<and> tagName n = t | None \<Rightarrow> False)"
| "matchSimple d p (Class c) =
     (case nodeAt d p of Some n \<Rightarrow> c \<in> set (classNames n) | None \<Rightarrow> False)"
| "matchSimple d p (Ident i) =
     (case nodeAt d p of Some n \<Rightarrow> attrOf n ''id'' = Some i | None \<Rightarrow> False)"
| "matchSimple d p (AttrEq a v) =
     (case nodeAt d p of Some n \<Rightarrow> attrOf n a = Some v | None \<Rightarrow> False)"
| "matchSimple d p (AttrHas a v) =
     (case nodeAt d p of
        Some n \<Rightarrow> (case attrOf n a of Some w \<Rightarrow> v \<noteq> [] \<and> includesStr w v | None \<Rightarrow> False)
      | None \<Rightarrow> False)"
| "matchSimple d p (AttrPre a v) =
     (case nodeAt d p of
        Some n \<Rightarrow> (case attrOf n a of Some w \<Rightarrow> v \<noteq> [] \<and> startsWith w v | None \<Rightarrow> False)
      | None \<Rightarrow> False)"
| "matchSimple d p (Contains s) =
     (case nodeAt d p of Some n \<Rightarrow> includesStr (textContent n) s | None \<Rightarrow> False)"
| "matchSimple d p (NotSel sel) = (\<not> list_ex (matchComplex d p) sel)"
| "matchComplex d p (Compound ss) = list_all (matchSimple d p) ss"
| "matchComplex d p (Desc a ss) =
     (list_all (matchSimple d p) ss \<and> list_ex (\<lambda>q. matchComplex d q a) (properPrefixes p))"

definition matches :: "document \<Rightarrow> selector \<Rightarrow> path \<Rightarrow> bool" where
  \<comment> \<open>\<open>$(el).is(sel)\<close>\<close>
  "matches d sel p = list_ex (matchComplex d p) sel"

definition select :: "document \<Rightarrow> selector \<Rightarrow> path list" where
  \<comment> \<open>\<open>$(sel)\<close>\<close>
  "select d sel = filter (matches d sel) (elements d)"

definition findIn :: "document \<Rightarrow> path \<Rightarrow> selector \<Rightarrow> path list" where
  \<comment> \<open>\<open>$(el).find(sel)\<close>: the descendants of one element that match\<close>
  "findIn d p sel = filter (\<lambda>q. length p < length q \<and> take (length p) q = p) (select d sel)"

definition textOf :: "document \<Rightarrow> path list \<Rightarrow> string" where
  \<comment> \<open>\<open>.text()\<close> of a selection: the texts of its elements, one after the other\<close>
  "textOf d ps = concat (map (\<lambda>p. case nodeAt d p of Some n \<Rightarrow> textContent n | None \<Rightarrow> []) ps)"

definition first :: "path list \<Rightarrow> path list" where
  \<comment> \<open>\<open>.first()\<close>\<close>
  "first ps = take 1 ps"

definition attr :: "document \<Rightarrow> path list \<Rightarrow> string \<Rightarrow> string option" where
  \<comment> \<open>\<open>.attr(name)\<close>: the attribute of the first element of the selection\<close>
  "attr d ps name = (case ps of [] \<Rightarrow> None
     | p # _ \<Rightarrow> (case nodeAt d p of Some n \<Rightarrow> attrOf n name | None \<Rightarrow> None))"

definition hasClass :: "document \<Rightarrow> path \<Rightarrow> string \<Rightarrow> bool" where
  "hasClass d p c = (case nodeAt d p of Some n \<Rightarrow> c \<in> set (classNames n) | None \<Rightarrow> False)"

definition siblingsAfter :: "document \<Rightarrow> path \<Rightarrow> path list" where
  \<comment> \<open>the element siblings that follow an element, nearest first\<close>
  "siblingsAfter d p = (case rev p of [] \<Rightarrow> []
     | i # rq \<Rightarrow> filter (\<lambda>q. length q = length p \<and> butlast q = rev rq \<and> i < last q) (elements d))"

definition nextEl :: "document \<Rightarrow> path \<Rightarrow> path list" where
  \<comment> \<open>\<open>$(el).next()\<close>\<close>
  "nextEl d p = take 1 (siblingsAfter d p)"

definition nextSel :: "document \<Rightarrow> path \<Rightarrow> selector \<Rightarrow> path list" where
  \<comment> \<open>\<open>$(el).next(sel)\<close>: the next element sibling, if it matches\<close>
  "nextSel d p sel = filter (matches d sel) (nextEl d p)"

fun removeFrom :: "document \<Rightarrow> selector \<Rightarrow> path \<Rightarrow> nat \<Rightarrow> node list \<Rightarrow> node list" where
  "removeFrom d sel pre i [] = []"
| "removeFrom d sel pre i (Element t as kids # ns) =
     (if matches d sel (pre @ [i]) then []
      else [Element t as (removeFrom d sel (pre @ [i]) 0 kids)])
     @ removeFrom d sel pre (Suc i) ns"
| "removeFrom d sel pre i (Text s # ns) = Text s # removeFrom d sel pre (Suc i) ns"
| "removeFrom d sel pre i (Comment s # ns) = Comment s # removeFrom d sel pre (Suc i) ns"

definition remove :: "document \<Rightarrow> selector \<Rightarrow> document" where
  \<comment> \<open>\<open>$(sel).remove()\<close>: the document without the elements that match, which is the state
      of the shared document after the call\<close>
  "remove d sel = removeFrom d sel [] 0 d"

fun firstSome :: "('a \<Rightarrow> 'b option) \<Rightarrow> 'a list \<Rightarrow> 'b option" where
  \<comment> \<open>a loop that keeps the first value found: \<open>.each\<close> with \<open>if (value) return\<close>, or a
      \<open>for\<close> with \<open>return\<close>\<close>
  "firstSome f [] = None"
| "firstSome f (x # xs) = (case f x of Some v \<Rightarrow> Some v | None \<Rightarrow> firstSome f xs)"

definition orElse :: "string option \<Rightarrow> string option \<Rightarrow> string option" where
  \<comment> \<open>\<open>a || b\<close>\<close>
  "orElse a b = (if truthy a then a else b)"

definition coalesce :: "string option \<Rightarrow> string option \<Rightarrow> string option" where
  \<comment> \<open>\<open>a ?? b\<close>\<close>
  "coalesce a b = (case a of Some x \<Rightarrow> Some x | None \<Rightarrow> b)"

section \<open>extractors.ts: createFieldExtractor\<close>

definition cls :: "string \<Rightarrow> re" where
  \<comment> \<open>a character class\<close>
  "cls s = Cls (\<lambda>x. x \<in> set s)"

definition dot :: re where
  "dot = Cls (\<lambda>x. \<not> isLineTerminator x)"

fun alts :: "re list \<Rightarrow> re" where
  "alts [] = Eps"
| "alts [r] = r"
| "alts (r # rs) = Alt r (alts rs)"

fun indexFrom :: "string \<Rightarrow> string \<Rightarrow> nat option" where
  "indexFrom [] sub = (if sub = [] then Some 0 else None)"
| "indexFrom (c # cs) sub =
     (if startsWith (c # cs) sub then Some 0 else map_option Suc (indexFrom cs sub))"

definition indexOf :: "string \<Rightarrow> string \<Rightarrow> int" where
  "indexOf s sub = (case indexFrom s sub of Some i \<Rightarrow> int i | None \<Rightarrow> - 1)"

definition substring :: "string \<Rightarrow> int \<Rightarrow> string" where
  \<comment> \<open>\<open>s.substring(a)\<close>: a negative start counts as 0\<close>
  "substring s a = drop (nat (max 0 a)) s"

definition scriptSelector :: selector where
  \<comment> \<open>\<open>'script, style, noscript'\<close>\<close>
  "scriptSelector = [Compound [Tag ''script''], Compound [Tag ''style''], Compound [Tag ''noscript'']]"

definition createFieldExtractor :: "document \<Rightarrow> document" where
  \<comment> \<open>line 9. The functions that the source returns close over the document; here they
      take it as an argument, and createFieldExtractor returns the document as the call
      leaves it, which is the document that every later query of the handler sees.\<close>
  "createFieldExtractor d = remove d scriptSelector"

definition companyPatterns :: "re list" where
  \<comment> \<open>\<open>/^bloomberg$/i\<close>, \<open>/^ucla\s*health$/i\<close>, \<open>/^unifi$/i\<close>, \<open>/^avature$/i\<close>\<close>
  "companyPatterns = [seq [Bol, liti ''bloomberg'', Eol],
                      seq [Bol, liti ''ucla'', Star space, liti ''health'', Eol],
                      seq [Bol, liti ''unifi'', Eol],
                      seq [Bol, liti ''avature'', Eol]]"

definition isCompanyName :: "string \<Rightarrow> bool" where
  "isCompanyName text = list_ex (\<lambda>pattern. re_test pattern (trim text)) companyPatterns"

definition titleIdRe :: re where
  \<comment> \<open>\<open>/^(.+?)\s*[-|]\s*\d+\s*[-|]/\<close>\<close>
  "titleIdRe = seq [Bol, Grp 1 (lazy1 dot), Star space, cls ''-|'', Star space, many1 digit,
                    Star space, cls ''-|'']"

definition titleSimpleRe :: re where
  \<comment> \<open>\<open>/^(.+?)\s*[-|]\s*[A-Z]/\<close>\<close>
  "titleSimpleRe = seq [Bol, Grp 1 (lazy1 dot), Star space, cls ''-|'', Star space,
                        cls ''ABCDEFGHIJKLMNOPQRSTUVWXYZ'']"

definition slugRe :: re where
  \<comment> \<open>\<open>/\/JobDetail\/([^/]+)\/\d+/\<close>\<close>
  "slugRe = seq [lit ''/JobDetail/'', Grp 1 (many1 (Cls (\<lambda>x. x \<noteq> CHR ''/''))), ch CHR ''/'',
                 many1 digit]"

definition ogTitle :: "document \<Rightarrow> string option" where
  \<comment> \<open>Method 1, lines 31 to 34: the result returned there, None when control goes on\<close>
  "ogTitle d =
     (case attr d (select d [Compound [Tag ''meta'', AttrEq ''property'' ''og:title'']]) ''content'' of
        None \<Rightarrow> None
      | Some content \<Rightarrow>
          (let ogTitle = trim content
           in if ogTitle \<noteq> [] \<and> 5 < length ogTitle \<and> length ogTitle < 200 then Some ogTitle
              else None))"

definition pageTitle :: "document \<Rightarrow> string option" where
  \<comment> \<open>Method 2, lines 37 to 49\<close>
  "pageTitle d =
     (let pageTitle = trim (textOf d (select d [Compound [Tag ''title'']]))
      in if pageTitle = [] then None
         else (case (case re_match titleIdRe pageTitle of
                       Some titleMatch \<Rightarrow>
                         if 5 < length (group titleMatch 1) then Some (trim (group titleMatch 1))
                         else None
                     | None \<Rightarrow> None) of
                 Some t \<Rightarrow> Some t
               | None \<Rightarrow>
                  (case re_match titleSimpleRe pageTitle of
                     Some simpleTitleMatch \<Rightarrow>
                       if 5 < length (group simpleTitleMatch 1) \<and> length (group simpleTitleMatch 1) < 150
                       then Some (trim (group simpleTitleMatch 1)) else None
                   | None \<Rightarrow> None)))"

definition bloombergTitle :: "document \<Rightarrow> string option" where
  \<comment> \<open>Method 3, lines 52 to 55\<close>
  "bloombergTitle d =
     (let bloombergTitle = trim (textOf d (first (select d
            [Desc (Compound [Class ''article__content__view__field__value--font''])
                  [Class ''article__content__view__field__value'']])))
      in if bloombergTitle \<noteq> [] \<and> 5 < length bloombergTitle \<and> length bloombergTitle < 200
         then Some bloombergTitle else None)"

definition acceptableHeading :: "string \<Rightarrow> bool" where
  \<comment> \<open>the condition of lines 73 to 76 and of lines 90 to 93\<close>
  "acceptableHeading text = (text \<noteq> []
      \<and> \<not> includesStr (toLowerCase text) ''home page''
      \<and> \<not> includesStr (toLowerCase text) ''careers''
      \<and> 5 < length text \<and> length text < 200
      \<and> \<not> isCompanyName text)"

definition notHidden :: simple where
  \<comment> \<open>\<open>:not(.visibility--hidden--visually)\<close>\<close>
  "notHidden = NotSel [Compound [Class ''visibility--hidden--visually'']]"

definition titleSelectors :: "selector list" where
  \<comment> \<open>lines 58 to 66\<close>
  "titleSelectors =
    [[Desc (Compound [Tag ''main'']) [Tag ''h1'', notHidden]],
     [Desc (Compound [Tag ''article'']) [Tag ''h1'']],
     [Desc (Compound [AttrHas ''class'' ''job'']) [Tag ''h1'']],
     [Desc (Compound [AttrHas ''class'' ''detail'']) [Tag ''h1'']],
     [Desc (Compound [Ident ''content'']) [Tag ''h1'']],
     [Desc (Compound [Class ''content'']) [Tag ''h1'']],
     [Compound [Tag ''h1'', NotSel [Desc (Compound [Tag ''header'']) [Tag ''h1'']],
                NotSel [Desc (Compound [Tag ''nav'']) [Tag ''h1'']], notHidden]]]"

definition selectorCandidate :: "document \<Rightarrow> selector \<Rightarrow> string option" where
  \<comment> \<open>the body of the loop of Method 4, lines 69 to 79: the title returned for this selector,
      None when the loop goes on to the next selector\<close>
  "selectorCandidate d selector =
     (case first (select d selector) of
        [] \<Rightarrow> None
      | el # _ \<Rightarrow> (let text = trim (textOf d [el])
                   in if acceptableHeading text then Some text else None))"

definition selectorTitle :: "document \<Rightarrow> string option" where
  \<comment> \<open>Method 4, lines 68 to 80\<close>
  "selectorTitle d = firstSome (selectorCandidate d) titleSelectors"

definition headingCandidate :: "document \<Rightarrow> path \<Rightarrow> string option" where
  \<comment> \<open>the body of the loop of Method 5, lines 86 to 95: the title that this heading sets,
      None when it sets none\<close>
  "headingCandidate d el =
     (if hasClass d el ''visibility--hidden--visually'' \<or> hasClass d el ''sr-only'' then None
      else (let text = trim (textOf d [el])
            in if acceptableHeading text then Some text else None))"

definition headingTitle :: "document \<Rightarrow> string option" where
  \<comment> \<open>Method 5, lines 83 to 96\<close>
  "headingTitle d = firstSome (headingCandidate d) (select d [Compound [Tag ''h1'']])"

definition slugTitle :: "string \<Rightarrow> string option" where
  \<comment> \<open>Method 6, lines 99 to 105\<close>
  "slugTitle url = (case re_match slugRe url of
       None \<Rightarrow> None
     | Some urlMatch \<Rightarrow> Some (map (\<lambda>c. if c = CHR ''-'' then CHR '' '' else c) (group urlMatch 1)))"

definition getJobTitle :: "document \<Rightarrow> string \<Rightarrow> string option" where
  "getJobTitle d url =
     (case ogTitle d of Some t \<Rightarrow> Some t | None \<Rightarrow>
     (case pageTitle d of Some t \<Rightarrow> Some t | None \<Rightarrow>
     (case bloombergTitle d of Some t \<Rightarrow> Some t | None \<Rightarrow>
     (case selectorTitle d of Some t \<Rightarrow> Some t | None \<Rightarrow>
     (case headingTitle d of Some t \<Rightarrow> Some t | None \<Rightarrow>
      slugTitle url)))))"

definition tags :: "string list \<Rightarrow> selector" where
  \<comment> \<open>a list of tag names, as in \<open>'p, div, span, li'\<close>\<close>
  "tags ts = map (\<lambda>t. Compound [Tag t]) ts"

definition fieldBlockValue :: "document \<Rightarrow> string \<Rightarrow> string option" where
  \<comment> \<open>Method 0, lines 119 to 133\<close>
  "fieldBlockValue d lowerLabel = firstSome (\<lambda>el.
       (let label = findIn d el [Compound [Class ''article__content__view__field__label'']];
            valueEl = findIn d el [Compound [Class ''article__content__view__field__value'']]
        in if label \<noteq> [] \<and> valueEl \<noteq> [] then
             (let labelTextContent = toLowerCase (trim (textOf d label))
              in if includesStr labelTextContent lowerLabel
                    \<or> includesStr lowerLabel (trim (filter (\<lambda>c. c \<notin> set '':#'') labelTextContent))
                 then (let valueText = trim (textOf d valueEl)
                       in if valueText \<noteq> [] \<and> length valueText < 500 then Some valueText else None)
                 else None)
           else None))
     (select d [Compound [Class ''article__content__view__field'']])"

definition strongValue :: "document \<Rightarrow> string \<Rightarrow> string option" where
  \<comment> \<open>Method 1, lines 138 to 157; the class of line 151 also holds the en dash and the
      bullet, both beyond U+00FF\<close>
  "strongValue d lowerLabel = firstSome (\<lambda>el.
       (let strong = findIn d el (tags [''strong'', ''b''])
        in if strong \<noteq> [] then
             (let strongText = toLowerCase (trim (textOf d (first strong)))
              in if includesStr strongText lowerLabel then
                   (let fullText = trim (textOf d [el]);
                        strongPart = trim (textOf d (first strong));
                        remainder = substring fullText (indexOf fullText strongPart + int (length strongPart));
                        remainder = trim (dropWhile (\<lambda>c. c \<in> set '':-|'' \<or> isSpace c) remainder)
                    in if remainder \<noteq> [] \<and> length remainder < 500
                          \<and> \<not> includesStr remainder ''twigConfig''
                       then Some remainder else None)
                 else None)
           else None))
     (select d (tags [''p'', ''div'', ''span'', ''li'']))"

definition dtValue :: "document \<Rightarrow> string \<Rightarrow> string option" where
  \<comment> \<open>Method 2, lines 162 to 174\<close>
  "dtValue d lowerLabel = firstSome (\<lambda>dt.
       if includesStr (toLowerCase (trim (textOf d [dt]))) lowerLabel then
         (let dd = nextSel d dt (tags [''dd''])
          in if dd \<noteq> [] then
               (let ddText = trim (textOf d dd)
                in if ddText \<noteq> [] \<and> length ddText < 500 then Some ddText else None)
             else None)
       else None)
     (select d (tags [''dt'']))"

definition tableValue :: "document \<Rightarrow> string \<Rightarrow> string option" where
  \<comment> \<open>Method 3, lines 179 to 192\<close>
  "tableValue d lowerLabel = firstSome (\<lambda>row.
       (let th = findIn d row (tags [''th'']); td = findIn d row (tags [''td''])
        in if th \<noteq> [] \<and> td \<noteq> [] then
             (if includesStr (toLowerCase (trim (textOf d th))) lowerLabel then
                (let tdText = trim (textOf d td)
                 in if tdText \<noteq> [] \<and> length tdText < 500 then Some tdText else None)
              else None)
           else None))
     (select d (tags [''tr'']))"

definition adjacentValue :: "document \<Rightarrow> string \<Rightarrow> string option" where
  \<comment> \<open>Method 4, lines 197 to 216\<close>
  "adjacentValue d lowerLabel = firstSome (\<lambda>el.
       (let text = toLowerCase (trim (textOf d [el]))
        in if text = lowerLabel \<or> text = lowerLabel @ '':'' then
             (let next = nextSel d el (tags [''div'', ''span''])
              in if next \<noteq> [] then
                   (let nextText = trim (textOf d next)
                    in if nextText \<noteq> [] \<and> length nextText < 200
                          \<and> \<not> includesStr (toLowerCase nextText) ''location''
                          \<and> \<not> includesStr (toLowerCase nextText) ''business area''
                          \<and> \<not> includesStr (toLowerCase nextText) ''ref #''
                       then Some nextText else None)
                 else None)
           else None))
     (select d (tags [''div'', ''span'']))"

definition labelValue :: "document \<Rightarrow> string \<Rightarrow> string option" where
  \<comment> \<open>the body of the loop over the labels, lines 114 to 218\<close>
  "labelValue d labelText =
     (let lowerLabel = toLowerCase labelText in
      coalesce (fieldBlockValue d lowerLabel)
     (coalesce (strongValue d lowerLabel)
     (coalesce (dtValue d lowerLabel)
     (coalesce (tableValue d lowerLabel)
               (adjacentValue d lowerLabel)))))"

definition getFieldByLabels :: "document \<Rightarrow> string list \<Rightarrow> string option" where
  "getFieldByLabels d labels = firstSome (labelValue d) labels"

definition contentSelector :: selector where
  \<comment> \<open>\<open>'main, article, #content, .content, [role="main"]'\<close>\<close>
  "contentSelector = [Compound [Tag ''main''], Compound [Tag ''article''], Compound [Ident ''content''],
                      Compound [Class ''content''], Compound [AttrEq ''role'' ''main'']]"

definition getTextByPattern :: "document \<Rightarrow> re \<Rightarrow> string option" where
  \<comment> \<open>lines 224 to 230\<close>
  "getTextByPattern d pattern =
     (let mainText = textOf d (select d contentSelector);
          contentText = (if mainText \<noteq> [] then mainText else textOf d (select d (tags [''body''])))
      in case re_match pattern contentText of
           None \<Rightarrow> None
         | Some m \<Rightarrow> orElse (map_option trim (m_group m 1)) (Some (trim (m_text m))))"

definition fieldTextRe :: "string \<Rightarrow> re" where
  \<comment> \<open>the expression built at lines 237 to 240, with the flag i, from a label that holds no
      character special in a regular expression, as all labels of the source are\<close>
  "fieldTextRe label = seq [liti label, Star (Cls (\<lambda>c. c = CHR '':'' \<or> isSpace c)),
       Grp 1 (rep 3 100 (Cls (\<lambda>c. c \<noteq> CHR 0x0A))),
       Ahead (seq [Star space,
         alts [liti ''Location'', liti ''Business Area'', liti ''Ref'', liti ''Posted'',
               liti ''Salary'', liti ''Department'', Eol]])]"

definition getFieldFromText :: "document \<Rightarrow> string list \<Rightarrow> string option" where
  \<comment> \<open>lines 233 to 250\<close>
  "getFieldFromText d labels =
     (let bodyText = textOf d (select d (tags [''body'']))
      in firstSome (\<lambda>label.
           (case re_match (fieldTextRe label) bodyText of
              None \<Rightarrow> None
            | Some m \<Rightarrow>
                (if truthy (m_group m 1) then
                   (let v = trim (group m 1)
                    in if v \<noteq> [] \<and> length v < 200 \<and> \<not> includesStr v ''twigConfig''
                       then Some v else None)
                 else None)))
         labels)"

section \<open>Requests, the crawling context and the effects of a handler\<close>

text \<open>
  What a handler can do to the outside: push a record to the dataset, and ask the crawler
  to enqueue requests. The error samples written by the request handler of main.ts are
  the third component. A handler takes the state of these three and returns the new
  state. The calls of the logger are diagnostics and are left out.
\<close>

datatype Label = LISTING | JOB_DETAIL

record userData =
  ud_title :: "string option"
  ud_subtitles :: "(string \<times> string) list option"

record request =
  r_url :: string
  r_loadedUrl :: "string option"
  r_label :: "Label option"
  r_userData :: userData

record parsedUrl =
  protocol :: string
  host :: string
  hostname :: string

datatype error = TypeError

record env =
  urlParser :: "string \<Rightarrow> parsedUrl option"
  clock :: string

text \<open>
  \<open>new URL(url)\<close> and \<open>new Date().toISOString()\<close> belong to the platform: \<open>urlParser\<close> is
  the parser, None where \<open>new URL\<close> throws a TypeError, and \<open>clock\<close> is the time of the call.
\<close>

record job =
  url :: string
  jobId :: "string option"
  refNumber :: "string option"
  subdomain :: string
  title :: "string option"
  location :: "string option"
  workType :: "string option"
  schedule :: "string option"
  salaryMin :: "string option"
  salaryMax :: "string option"
  salaryPeriod :: "string option"
  salaryRaw :: "string option"
  employmentType :: "string option"
  employmentClassification :: "string option"
  duration :: "string option"
  department :: "string option"
  category :: "string option"
  entity :: "string option"
  postedDate :: "string option"
  description :: "string option"
  qualifications :: "string option"
  duties :: "string option"
  fullContent :: string
  applyUrl :: "string option"
  additional :: "(string \<times> string) list option"
  scrapedAt :: string

record task =
  t_url :: string
  t_label :: "Label option"
  t_userData :: userData

record errorSample =
  e_url :: string
  e_errorType :: string
  e_errorMessage :: string
  e_statusCode :: "nat option"
  e_html :: string

record world =
  dataset :: "job list"
  requestQueue :: "task list"
  errorSamples :: "errorSample list"

definition noUserData :: userData where
  "noUserData = \<lparr>ud_title = None, ud_subtitles = None\<rparr>"

section \<open>utils.ts\<close>

definition getBaseUrl :: "env \<Rightarrow> string \<Rightarrow> error + string" where
  "getBaseUrl e u = (case urlParser e u of
       None \<Rightarrow> Inl TypeError
     | Some parsed \<Rightarrow> Inr (protocol parsed @ ''//'' @ host parsed))"

definition getSubdomain :: "env \<Rightarrow> string \<Rightarrow> error + string" where
  "getSubdomain e u = (case urlParser e u of
       None \<Rightarrow> Inl TypeError
     | Some parsed \<Rightarrow>
         (let parts = splitOn (\<lambda>c. c = CHR ''.'') [] (hostname parsed)
          in Inr (if 2 < length parts then hd parts else hostname parsed)))"

definition requestUrl :: "request \<Rightarrow> string" where
  \<comment> \<open>\<open>request.loadedUrl ?? request.url\<close>\<close>
  "requestUrl r = (case r_loadedUrl r of Some u \<Rightarrow> u | None \<Rightarrow> r_url r)"

section \<open>job-detail.handler.ts\<close>

definition jobIdRe :: re where
  \<comment> \<open>\<open>/\/(\d+)(?:[/?#]|$)/\<close>\<close>
  "jobIdRe = seq [ch CHR ''/'', Grp 1 (many1 digit), Alt (cls ''/?#'') Eol]"

definition postedRe :: re where
  \<comment> \<open>\<open>/posted[:\s]+(\d{1,2}[-/][A-Za-z0-9]{2,3}[-/]\d{2,4})/i\<close>\<close>
  "postedRe = seq [liti ''posted'', many1 (Cls (\<lambda>c. c = CHR '':'' \<or> isSpace c)),
       Grp 1 (seq [rep 1 2 digit, cls ''-/'', rep 2 3 (Cls (\<lambda>c. isAlpha c \<or> isDigit c)),
                   cls ''-/'', rep 2 4 digit])]"

definition refRe :: re where
  \<comment> \<open>\<open>/(?:job\s*#|ref\s*#|requisition[:\s]*#?)\s*(\d+)/i\<close>\<close>
  "refRe = seq [alts [seq [liti ''job'', Star space, ch CHR ''#''],
                      seq [liti ''ref'', Star space, ch CHR ''#''],
                      seq [liti ''requisition'', Star (Cls (\<lambda>c. c = CHR '':'' \<or> isSpace c)),
                           opt (ch CHR ''#'')]],
                Star space, Grp 1 (many1 digit)]"

definition hint :: "request \<Rightarrow> string \<Rightarrow> string option" where
  \<comment> \<open>\<open>request.userData?.subtitles?.key\<close>\<close>
  "hint r key = (case ud_subtitles (r_userData r) of None \<Rightarrow> None | Some subs \<Rightarrow> map_of subs key)"

fun stripRefMark :: "string \<Rightarrow> string" where
  \<comment> \<open>\<open>.replaceAll(/(ref)\s#/g, '')\<close>: every occurrence of ref, one white space and #, from
      left to right, is deleted\<close>
  "stripRefMark (a # b # c # s # h # rest) =
     (if a = CHR ''r'' \<and> b = CHR ''e'' \<and> c = CHR ''f'' \<and> isSpace s \<and> h = CHR ''#''
      then stripRefMark rest
      else a # stripRefMark (b # c # s # h # rest))"
| "stripRefMark short = short"

definition refHint :: "request \<Rightarrow> string option" where
  \<comment> \<open>\<open>request.userData?.subtitles?.ref?.toLowerCase().replaceAll(/(ref)\s#/g, '')\<close>\<close>
  "refHint r = map_option (\<lambda>ref. stripRefMark (toLowerCase ref)) (hint r ''ref'')"

definition applySelector :: selector where
  \<comment> \<open>line 93\<close>
  "applySelector = [Compound [Tag ''a'', AttrHas ''href'' ''ApplicationMethods''],
                    Compound [Tag ''a'', AttrHas ''href'' ''Apply''],
                    Compound [Tag ''a'', AttrHas ''href'' ''apply''],
                    Compound [Tag ''a'', Contains ''Apply''],
                    Compound [Tag ''a'', Contains ''apply''],
                    Compound [Tag ''a'', Class ''button--primary'']]"

fun findApplyUrl :: "env \<Rightarrow> document \<Rightarrow> string \<Rightarrow> path list \<Rightarrow> error + string option" where
  \<comment> \<open>lines 92 to 100\<close>
  "findApplyUrl e d u [] = Inr None"
| "findApplyUrl e d u (el # els) =
     (case attr d [el] ''href'' of
        None \<Rightarrow> findApplyUrl e d u els
      | Some href \<Rightarrow>
          if href = [] then findApplyUrl e d u els
          else if startsWith href ''http'' then Inr (Some href)
          else (case getBaseUrl e u of
                  Inl err \<Rightarrow> Inl err
                | Inr base \<Rightarrow> Inr (Some (base @ href))))"

fun joinLines :: "string list \<Rightarrow> string" where
  \<comment> \<open>\<open>.join('\n')\<close>\<close>
  "joinLines [] = []"
| "joinLines [x] = x"
| "joinLines (x # y # ys) = x @ [CHR 0x0A] @ joinLines (y # ys)"

record sections =
  s_description :: "string option"
  s_qualifications :: string
  s_duties :: string

definition includesAny :: "string \<Rightarrow> string list \<Rightarrow> bool" where
  "includesAny s subs = list_ex (includesStr s) subs"

definition longer :: "string \<Rightarrow> string option \<Rightarrow> bool" where
  \<comment> \<open>\<open>!description || content.length > description.length\<close>\<close>
  "longer content desc = (case desc of None \<Rightarrow> True
     | Some t \<Rightarrow> t = [] \<or> length t < length content)"

definition headingStep :: "document \<Rightarrow> sections \<Rightarrow> path \<Rightarrow> sections" where
  \<comment> \<open>the body of the loop over the h3 headings, lines 109 to 137\<close>
  "headingStep d st el =
     (let headingText = toLowerCase (trim (textOf d [el]));
          blocks = takeWhile (\<lambda>q. \<not> matches d (tags [''h3'', ''h2'', ''h1'']) q) (siblingsAfter d el);
          contentParts = filter (\<lambda>text. text \<noteq> [] \<and> \<not> includesStr text ''Press space or enter'')
                                (map (\<lambda>q. trim (textOf d [q])) blocks);
          content = joinLines contentParts
      in if content = [] \<or> length content < 20 then st
         else if includesAny headingText [''primary dut'', ''responsibilit'', ''what you'']
           then st\<lparr>s_duties := (if s_duties st \<noteq> [] then s_duties st @ [CHR 0x0A] @ content else content)\<rparr>
         else if includesAny headingText [''qualification'', ''requirement'', ''skills'', ''experience'']
           then st\<lparr>s_qualifications :=
                    (if s_qualifications st \<noteq> [] then s_qualifications st @ [CHR 0x0A] @ content
                     else content)\<rparr>
         else if includesAny headingText [''description'', ''overview'', ''summary'', ''about the role'']
           then (if longer content (s_description st) then st\<lparr>s_description := Some content\<rparr> else st)
         else st)"

definition sectionSelector :: selector where
  \<comment> \<open>line 141\<close>
  "sectionSelector = [Compound [Tag ''section''], Compound [AttrHas ''class'' ''section''],
                      Compound [AttrHas ''class'' ''collapsible''], Compound [Tag ''details''],
                      Compound [AttrEq ''role'' ''region'']]"

definition sectionHeadingSelector :: selector where
  \<comment> \<open>line 143\<close>
  "sectionHeadingSelector = tags [''h2'', ''h3'', ''h4'', ''summary'']
      @ [Compound [AttrHas ''class'' ''header''], Compound [AttrHas ''class'' ''title'']]"

definition sectionStep :: "document \<Rightarrow> sections \<Rightarrow> path \<Rightarrow> sections" where
  \<comment> \<open>the body of the loop over the sections, lines 142 to 160\<close>
  "sectionStep d st el =
     (let heading = toLowerCase (trim (textOf d (first (findIn d el sectionHeadingSelector))));
          content = trim (textOf d (findIn d el (tags [''p'', ''ul'', ''ol''])))
      in if content = [] \<or> length content < 20 then st
         else if includesAny heading [''description'', ''overview'', ''summary'', ''about'']
           then (if longer content (s_description st) then st\<lparr>s_description := Some content\<rparr> else st)
         else if includesAny heading [''qualification'', ''requirement'', ''skills'', ''experience'']
           then (if s_qualifications st = [] then st\<lparr>s_qualifications := content\<rparr> else st)
         else if includesAny heading [''dut'', ''responsibilit'', ''what you'']
           then (if s_duties st = [] then st\<lparr>s_duties := content\<rparr> else st)
         else st)"

definition nonEmpty :: "string \<Rightarrow> string option" where
  \<comment> \<open>\<open>s || null\<close>\<close>
  "nonEmpty s = (if s = [] then None else Some s)"

definition mainSelector :: selector where
  \<comment> \<open>\<open>'main, article, [role="main"], #content, .content'\<close>, line 164\<close>
  "mainSelector = [Compound [Tag ''main''], Compound [Tag ''article''], Compound [AttrEq ''role'' ''main''],
                   Compound [Ident ''content''], Compound [Class ''content'']]"

definition jobData :: "env \<Rightarrow> request \<Rightarrow> document \<Rightarrow> string \<Rightarrow> string \<Rightarrow> string option \<Rightarrow> job" where
  \<comment> \<open>the record built at lines 19 to 214 from the document \<open>d\<close> that createFieldExtractor
      left, the address \<open>u\<close>, its subdomain and the apply link\<close>
  "jobData e r d u sub applyUrlValue =
     (let jobIdValue = map_option (\<lambda>m. group m 1) (re_match jobIdRe u);
          titleValue = orElse (ud_title (r_userData r)) (getJobTitle d u);
          locationValue = orElse (hint r ''location'') (orElse (hint r ''locationBuiltIn'')
             (coalesce (getFieldByLabels d [''work location'', ''location'', ''job location'', ''city'',
                                            ''office location''])
                       (getFieldFromText d [''Location''])));
          workTypeValue = getFieldByLabels d [''work type'', ''remote'', ''workplace type'',
                                              ''work arrangement'', ''location type''];
          scheduleValue = getFieldByLabels d [''work schedule'', ''schedule'', ''shift'', ''hours'',
                                              ''working hours''];
          salaryRawValue = getFieldByLabels d [''salary range'', ''salary'', ''compensation'',
             ''pay range'', ''base pay rate'', ''pay rate'', ''base pay'', ''hourly rate'',
             ''annual salary''];
          salaryValue = parseSalary salaryRawValue;
          employmentTypeValue = orElse (hint r ''workingTime'')
             (getFieldByLabels d [''employment type'', ''job type'', ''position type'',
                                  ''full/part time'', ''full time/part time'', ''type'']);
          employmentClassificationValue = getFieldByLabels d [''employment classification'',
             ''classification'', ''flsa status'', ''exempt status''];
          durationValue = orElse (hint r ''contractType'')
             (getFieldByLabels d [''duration'', ''contract length'', ''term'', ''assignment length'']);
          departmentValue = orElse (hint r ''department'')
             (coalesce (getFieldByLabels d [''department'', ''business area'', ''division'', ''team'',
                                            ''group'', ''organization''])
                       (getFieldFromText d [''Business Area'', ''Department'']));
          categoryValue = getFieldByLabels d [''category'', ''job family'', ''job category'',
                                              ''function'', ''area''];
          entityValue = orElse (hint r ''legalEntity'')
             (getFieldByLabels d [''entity'', ''company'', ''subsidiary'', ''business unit'',
                                  ''legal entity'']);
          postedDateRaw = coalesce (getFieldByLabels d [''posted date'', ''posted'', ''date posted'',
                                                         ''posting date'', ''published''])
                                   (getTextByPattern d postedRe);
          postedDateValue = parseDate postedDateRaw;
          refNumberValue = orElse (refHint r)
             (coalesce (getFieldByLabels d [''job #'', ''job number'', ''requisition'', ''req id'',
                                            ''position id'', ''opening id'', ''ref'', ''ref #''])
             (coalesce (getFieldFromText d [''Ref #'', ''Ref#'', ''Reference''])
                       (getTextByPattern d refRe)));
          st0 = \<lparr>s_description = None, s_qualifications = [], s_duties = []\<rparr>;
          st1 = foldl (headingStep d) st0 (select d (tags [''h3'']));
          st2 = foldl (sectionStep d) st1 (select d sectionSelector);
          fullContentValue = trim (textOf d (first (select d mainSelector)));
          result = \<lparr>url = u, jobId = jobIdValue,
             refNumber = (if refNumberValue \<noteq> jobIdValue then refNumberValue else None),
             subdomain = sub,
             title = titleValue, location = locationValue, workType = workTypeValue,
             schedule = scheduleValue,
             salaryMin = min' salaryValue, salaryMax = max' salaryValue,
             salaryPeriod = period salaryValue, salaryRaw = raw salaryValue,
             employmentType = employmentTypeValue,
             employmentClassification = employmentClassificationValue,
             duration = durationValue,
             department = departmentValue, category = categoryValue, entity = entityValue,
             postedDate = postedDateValue,
             description = s_description st2,
             qualifications = nonEmpty (s_qualifications st2),
             duties = nonEmpty (s_duties st2),
             fullContent = fullContentValue,
             applyUrl = applyUrlValue,
             additional = ud_subtitles (r_userData r),
             scrapedAt = clock e\<rparr>
      in result)"

definition jobDetailHandler :: "env \<Rightarrow> request \<Rightarrow> document \<Rightarrow> world \<Rightarrow> error + document \<times> world" where
  \<comment> \<open>the two calls that can throw are \<open>getSubdomain\<close> at line 14 and \<open>getBaseUrl\<close> at line 97;
      \<open>Dataset.pushData\<close> at line 223 is the only effect\<close>
  "jobDetailHandler e r doc w =
     (let u = requestUrl r in
      case getSubdomain e u of
        Inl err \<Rightarrow> Inl err
      | Inr sub \<Rightarrow>
     (let d = createFieldExtractor doc
      in case findApplyUrl e d u (select d applySelector) of
           Inl err \<Rightarrow> Inl err
         | Inr applyUrlValue \<Rightarrow>
             Inr (d, w\<lparr>dataset := dataset w @ [jobData e r d u sub applyUrlValue]\<rparr>)))"

section \<open>listing.handler.ts\<close>

definition resolveUrl :: "string \<Rightarrow> string \<Rightarrow> string" where
  \<comment> \<open>lines 34 and 95: the absolute address of a link\<close>
  "resolveUrl baseUrl href =
     (if startsWith href ''http'' then href
      else baseUrl @ (if startsWith href ''/'' then [] else ''/'') @ href)"

fun assign :: "(string \<times> string) list \<Rightarrow> string \<Rightarrow> string \<Rightarrow> (string \<times> string) list" where
  \<comment> \<open>\<open>object[key] = value\<close>: a key that is present keeps its place\<close>
  "assign [] k v = [(k, v)]"
| "assign ((k', v') # kvs) k v = (if k' = k then (k, v) # kvs else (k', v') # assign kvs k v)"

definition cardSelector :: selector where
  \<comment> \<open>\<open>'.section__content__results .article, .list .list-item, .list .list__item'\<close>\<close>
  "cardSelector = [Desc (Compound [Class ''section__content__results'']) [Class ''article''],
                   Desc (Compound [Class ''list'']) [Class ''list-item''],
                   Desc (Compound [Class ''list'']) [Class ''list__item'']]"

definition linkSelector :: selector where
  \<comment> \<open>\<open>'.article__header__text__title a, .list__item__text__title a'\<close>\<close>
  "linkSelector = [Desc (Compound [Class ''article__header__text__title'']) [Tag ''a''],
                   Desc (Compound [Class ''list__item__text__title'']) [Tag ''a'']]"

definition cardTitleSelector :: selector where
  "cardTitleSelector = [Compound [Class ''article__header__text__title''],
                        Compound [Class ''list__item__text__title'']]"

definition subtitleSelector :: selector where
  "subtitleSelector = [Compound [Class ''article__header__text__subtitle''],
                       Compound [Class ''list__item__text__subtitle'']]"

definition subtitleItem :: "document \<Rightarrow> (string \<times> string) list \<Rightarrow> path \<Rightarrow> (string \<times> string) list" where
  \<comment> \<open>lines 50 to 55\<close>
  "subtitleItem d subs subEl =
     (let classNames = (case attr d [subEl] ''class'' of
                          Some c \<Rightarrow> splitOn (\<lambda>x. x = CHR '' '') [] c
                        | None \<Rightarrow> [])
      in case List.find (\<lambda>cn. startsWith cn ''list-item-'') classNames of
           None \<Rightarrow> subs
         | Some cn \<Rightarrow> (let key = drop (length ''list-item-'') cn
                      in if key = [] then subs else assign subs key (trim (textOf d [subEl]))))"

definition subtitleStep :: "document \<Rightarrow> (string \<times> string) list \<Rightarrow> path \<Rightarrow> (string \<times> string) list" where
  \<comment> \<open>lines 44 to 57\<close>
  "subtitleStep d subs subWrapper =
     (let items = findIn d subWrapper [Compound [AttrPre ''class'' ''list-item-'']]
      in if items = [] then assign subs ''default'' (trim (textOf d [subWrapper]))
         else foldl (subtitleItem d) subs items)"

definition cardHref :: "document \<Rightarrow> path \<Rightarrow> string option" where
  \<comment> \<open>lines 30 to 32: the link of a card, None where the card is skipped\<close>
  "cardHref d articleEl = (case attr d (findIn d articleEl linkSelector) ''href'' of
       None \<Rightarrow> None
     | Some href \<Rightarrow> if href = [] then None else Some href)"

definition cardStep :: "string \<Rightarrow> document \<Rightarrow> task list \<times> string list \<Rightarrow> path \<Rightarrow> task list \<times> string list" where
  \<comment> \<open>the body of the loop over the cards, lines 29 to 67; the state is \<open>jobLinks\<close> and
      \<open>seenUrls\<close>\<close>
  "cardStep baseUrl d st articleEl =
     (case cardHref d articleEl of
        None \<Rightarrow> st
      | Some href \<Rightarrow>
          (let fullUrl = resolveUrl baseUrl href
           in if fullUrl \<in> set (snd st) then st
              else (let cardTitle = trim (textOf d (first (findIn d articleEl cardTitleSelector)));
                        subtitles = foldl (subtitleStep d) [] (findIn d articleEl subtitleSelector)
                    in (fst st @ [\<lparr>t_url = fullUrl, t_label = Some JOB_DETAIL,
                                   t_userData = \<lparr>ud_title = Some cardTitle,
                                                 ud_subtitles = Some subtitles\<rparr>\<rparr>],
                        snd st @ [fullUrl]))))"

definition jobLinks :: "string \<Rightarrow> document \<Rightarrow> task list" where
  \<comment> \<open>lines 25 to 68\<close>
  "jobLinks baseUrl d = fst (foldl (cardStep baseUrl d) ([], []) (select d cardSelector))"

definition paginationSelector :: selector where
  \<comment> \<open>line 82\<close>
  "paginationSelector = [Compound [Tag ''a'', AttrHas ''href'' ''jobOffset''],
                         Compound [Tag ''a'', AttrHas ''href'' ''SearchJobs''],
                         Compound [Tag ''a'', AttrHas ''href'' ''pageNumber'']]"

definition paginationStep :: "string \<Rightarrow> document \<Rightarrow> string list \<times> string list \<Rightarrow> path \<Rightarrow> string list \<times> string list" where
  \<comment> \<open>lines 83 to 101\<close>
  "paginationStep baseUrl d st el =
     (let text = toLowerCase (trim (textOf d [el]))
      in case attr d [el] ''href'' of
           None \<Rightarrow> st
         | Some href \<Rightarrow>
             if href = [] then st
             else if includesStr text ''prev'' \<or> includesStr text ''<<'' \<or> includesStr text ''back'' then st
             else if href = ''#'' \<or> href = [] then st
             else (let fullUrl = resolveUrl baseUrl href
                   in if fullUrl \<in> set (snd st) then st
                      else (fst st @ [fullUrl], snd st @ [fullUrl])))"

definition paginationLinks :: "string \<Rightarrow> document \<Rightarrow> string list" where
  "paginationLinks baseUrl d = fst (foldl (paginationStep baseUrl d) ([], []) (select d paginationSelector))"

definition enqueue :: "task list \<Rightarrow> world \<Rightarrow> world" where
  \<comment> \<open>\<open>addRequests\<close> and \<open>enqueueLinks\<close>: the requests handed to the crawler\<close>
  "enqueue ts w = w\<lparr>requestQueue := requestQueue w @ ts\<rparr>"

definition linkTask :: "Label \<Rightarrow> string \<Rightarrow> task" where
  \<comment> \<open>a request made by \<open>enqueueLinks({ urls, label })\<close>\<close>
  "linkTask l u = \<lparr>t_url = u, t_label = Some l, t_userData = noUserData\<rparr>"

definition listingHandler :: "env \<Rightarrow> request \<Rightarrow> document \<Rightarrow> world \<Rightarrow> error + document \<times> world" where
  "listingHandler e r d w =
     (case getBaseUrl e (requestUrl r) of
        Inl err \<Rightarrow> Inl err
      | Inr baseUrl \<Rightarrow>
     (case getSubdomain e (requestUrl r) of
        Inl err \<Rightarrow> Inl err
      | Inr sub \<Rightarrow>
     (let links = jobLinks baseUrl d;
          w1 = (if links \<noteq> [] then enqueue links w else w);
          pages = paginationLinks baseUrl d;
          w2 = (if pages \<noteq> [] then enqueue (map (linkTask LISTING) pages) w1 else w1)
      in Inr (d, w2))))"

section \<open>default.handler.ts\<close>

definition defaultLinks :: "string \<Rightarrow> document \<Rightarrow> selector \<Rightarrow> string list" where
  \<comment> \<open>lines 16 to 25 and 36 to 45\<close>
  "defaultLinks baseUrl d sel = foldl (\<lambda>links el.
       (case attr d [el] ''href'' of
          None \<Rightarrow> links
        | Some href \<Rightarrow>
            if href = [] then links
            else (let fullUrl = (if startsWith href ''http'' then href else baseUrl @ href)
                  in if fullUrl \<in> set links then links else links @ [fullUrl])))
     [] (select d sel)"

definition defaultHandler :: "env \<Rightarrow> request \<Rightarrow> document \<Rightarrow> world \<Rightarrow> error + document \<times> world" where
  "defaultHandler e r d w =
     (case getBaseUrl e (requestUrl r) of
        Inl err \<Rightarrow> Inl err
      | Inr baseUrl \<Rightarrow>
     (let links = defaultLinks baseUrl d
                    [Compound [Tag ''a'', AttrHas ''href'' ''/careers/JobDetail/''],
                     Compound [Tag ''a'', AttrHas ''href'' ''/JobDetail/'']];
          w1 = (if links \<noteq> [] then enqueue (map (linkTask JOB_DETAIL) links) w else w);
          listingLinks = defaultLinks baseUrl d
                    [Compound [Tag ''a'', AttrHas ''href'' ''/careers/SearchJobs''],
                     Compound [Tag ''a'', AttrHas ''href'' ''SearchJobs'']];
          w2 = (if listingLinks \<noteq> [] then enqueue (map (linkTask LISTING) listingLinks) w1 else w1)
      in Inr (d, w2)))"

section \<open>routes/index.ts and main.ts\<close>

definition router :: "env \<Rightarrow> request \<Rightarrow> document \<Rightarrow> world \<Rightarrow> error + document \<times> world" where
  \<comment> \<open>the router of routes/index.ts dispatches on the label of the request\<close>
  "router e r d w = (case r_label r of
       Some LISTING \<Rightarrow> listingHandler e r d w
     | Some JOB_DETAIL \<Rightarrow> jobDetailHandler e r d w
     | None \<Rightarrow> defaultHandler e r d w)"

record config =
  saveErrorSamples :: bool
  errorSamplesPath :: string

definition defaultConfig :: config where
  \<comment> \<open>the defaults of the input\<close>
  "defaultConfig = \<lparr>saveErrorSamples = True, errorSamplesPath = ''./samples''\<rparr>"

record crawlingContext =
  c_request :: request
  c_statusCode :: "nat option"
  c_body :: string
  c_doc :: document

definition ws :: re where
  \<comment> \<open>\<open>\s*\<close>\<close>
  "ws = Star space"

definition ERROR_PAGE_PATTERNS :: "(re \<times> string) list" where
  "ERROR_PAGE_PATTERNS =
    [(seq [liti ''page'', ws, liti ''not'', ws, liti ''found''], ''PAGE_NOT_FOUND''),
     (seq [liti ''404'', ws, liti ''error''], ''PAGE_NOT_FOUND''),
     (seq [liti ''not'', ws, liti ''found''], ''PAGE_NOT_FOUND''),
     (seq [liti ''access'', ws, liti ''denied''], ''ACCESS_DENIED''),
     (liti ''forbidden'', ''ACCESS_DENIED''),
     (seq [liti ''403'', ws, liti ''error''], ''ACCESS_DENIED''),
     (liti ''unauthorized'', ''UNAUTHORIZED''),
     (seq [liti ''401'', ws, liti ''error''], ''UNAUTHORIZED''),
     (seq [liti ''login'', ws, liti ''required''], ''AUTH_REQUIRED''),
     (seq [liti ''sign'', ws, liti ''in'', ws, liti ''required''], ''AUTH_REQUIRED''),
     (seq [liti ''authentication'', ws, liti ''required''], ''AUTH_REQUIRED''),
     (seq [liti ''session'', ws, liti ''expired''], ''SESSION_EXPIRED''),
     (seq [liti ''internal'', ws, liti ''server'', ws, liti ''error''], ''SERVER_ERROR''),
     (seq [liti ''500'', ws, liti ''error''], ''SERVER_ERROR''),
     (seq [liti ''service'', ws, liti ''unavailable''], ''SERVICE_UNAVAILABLE''),
     (seq [liti ''503'', ws, liti ''error''], ''SERVICE_UNAVAILABLE''),
     (seq [liti ''temporarily'', ws, liti ''unavailable''], ''SERVICE_UNAVAILABLE''),
     (liti ''maintenance'', ''MAINTENANCE''),
     (seq [liti ''under'', ws, liti ''construction''], ''MAINTENANCE''),
     (seq [liti ''job'', ws, opt (Grp 1 (seq [liti ''has'', ws, liti ''been'', ws])),
           Grp 2 (alts [liti ''closed'', liti ''filled'', liti ''expired'', liti ''removed''])],
      ''JOB_CLOSED''),
     (seq [liti ''position'', ws, opt (Grp 1 (seq [liti ''is'', ws])),
           Grp 2 (alts [seq [liti ''no'', ws, liti ''longer'', ws, liti ''available''],
                        liti ''closed'', liti ''filled''])],
      ''JOB_CLOSED''),
     (seq [liti ''this'', ws, liti ''posting'', ws, opt (Grp 1 (seq [liti ''has'', ws, liti ''been'', ws])),
           Grp 2 (alts [liti ''closed'', liti ''removed''])],
      ''JOB_CLOSED''),
     (seq [liti ''multiple'', ws, liti ''users'', ws, liti ''connecting'', ws, liti ''from'', ws,
           liti ''your'', ws, liti ''ip''], ''PROXY_RATE_LIMITED''),
     (seq [liti ''rate'', ws, liti ''limit''], ''RATE_LIMITED''),
     (seq [liti ''too'', ws, liti ''many'', ws, liti ''requests''], ''RATE_LIMITED'')]"

definition titleTagRe :: re where
  \<comment> \<open>\<open>/<title[^>]*>([^<]*)<\/title>/i\<close>\<close>
  "titleTagRe = seq [liti ''<title'', Star (Cls (\<lambda>c. c \<noteq> CHR ''>'')), ch CHR ''>'',
                     Grp 1 (Star (Cls (\<lambda>c. c \<noteq> CHR ''<''))), liti ''</title>'']"

definition detectErrorInContent :: "string \<Rightarrow> document \<Rightarrow> (string \<times> string) option" where
  \<comment> \<open>the type and the message of the first pattern found; the request handler always
      passes the parsed document, so the branch for a missing document is left out\<close>
  "detectErrorInContent html d =
     (let pageTitle = (case re_match titleTagRe html of Some m \<Rightarrow> trim (group m 1) | None \<Rightarrow> []);
          bodyText = take 5000 (textOf d (select d (tags [''body''])));
          fullText = toLowerCase (pageTitle @ '' '' @ bodyText)
      in firstSome (\<lambda>(pattern, type).
           if re_test pattern fullText then Some (type, ''Detected error pattern: '' @ type) else None)
         ERROR_PAGE_PATTERNS)"

function showNat :: "nat \<Rightarrow> string" where
  \<comment> \<open>a number in a template string\<close>
  "showNat n = (if n < 10 then [''0123456789'' ! n] else showNat (n div 10) @ [''0123456789'' ! (n mod 10)])"
  by pat_completeness auto
termination
  by (relation "measure id") auto

definition statusErrorType :: "nat \<Rightarrow> string" where
  \<comment> \<open>the chain of conditions in the request handler of main.ts\<close>
  "statusErrorType statusCode =
     (if statusCode = 401 then ''UNAUTHORIZED''
      else if statusCode = 403 then ''ACCESS_DENIED''
      else if statusCode = 404 then ''PAGE_NOT_FOUND''
      else if statusCode = 429 then ''RATE_LIMITED''
      else if statusCode = 499 then ''PROXY_RATE_LIMITED''
      else if 500 \<le> statusCode then ''SERVER_ERROR''
      else ''HTTP_ERROR'')"

definition saveErrorSample :: "string \<Rightarrow> string \<Rightarrow> string \<Rightarrow> string \<Rightarrow> nat option \<Rightarrow> world \<Rightarrow> world" where
  \<comment> \<open>the file that saveErrorSample writes, as the values that it is made of: the header
      holds the address, the type, the message and the status, and the page follows\<close>
  "saveErrorSample u html errorType errorMessage statusCode w =
     w\<lparr>errorSamples := errorSamples w @
         [\<lparr>e_url = u, e_errorType = errorType, e_errorMessage = errorMessage,
           e_statusCode = statusCode, e_html = html\<rparr>]\<rparr>"

definition requestHandler ::
  "config \<Rightarrow> (env \<Rightarrow> request \<Rightarrow> document \<Rightarrow> world \<Rightarrow> error + document \<times> world)
     \<Rightarrow> env \<Rightarrow> crawlingContext \<Rightarrow> world \<Rightarrow> error + document \<times> world" where
  \<comment> \<open>the request handler of main.ts; \<open>route\<close> is the router that it calls last\<close>
  "requestHandler cfg route e ctx w =
     (let u = requestUrl (c_request ctx);
          statusCode = (case c_statusCode ctx of Some s \<Rightarrow> s | None \<Rightarrow> 200);
          html = c_body ctx
      in if 400 \<le> statusCode then
           (let errorType = statusErrorType statusCode;
                errorMessage = ''HTTP '' @ showNat statusCode @ '' error''
            in Inr (c_doc ctx,
                    if saveErrorSamples cfg
                    then saveErrorSample u html errorType errorMessage (Some statusCode) w
                    else w))
         else (case detectErrorInContent html (c_doc ctx) of
                 Some (errorType, message) \<Rightarrow>
                   Inr (c_doc ctx,
                        if saveErrorSamples cfg
                        then saveErrorSample u html errorType message (Some statusCode) w
                        else w)
               | None \<Rightarrow>
                   route e (c_request ctx)
                     (remove (c_doc ctx) [Compound [Class ''visibility--hidden--visually'']]) w))"

section \<open>Example pages\<close>

definition detailUrl :: string where
  "detailUrl = ''https://acme.avature.net/careers/JobDetail/Senior-Software-Engineer/12345''"

definition brandedPage :: document where
  \<comment> \<open>a detail page whose og:title holds the name of the company\<close>
  "brandedPage = [Element ''html'' [] [
      Element ''head'' [] [
        Element ''meta'' [(''property'', ''og:title''), (''content'', ''Bloomberg'')] []],
      Element ''body'' [] [
        Element ''main'' [] [Element ''h1'' [] [Text ''Senior Software Engineer'']]]]]"

definition brandedHeadings :: document where
  \<comment> \<open>a detail page whose first heading holds the name of the company\<close>
  "brandedHeadings = [Element ''html'' [] [
      Element ''head'' [] [],
      Element ''body'' [] [
        Element ''main'' [] [Element ''h1'' [] [Text '' UCLA  Health '']],
        Element ''article'' [] [Element ''h1'' [] [Text ''Senior Software Engineer'']]]]]"

definition acmeEnv :: env where
  "acmeEnv = \<lparr>urlParser = (\<lambda>u. if startsWith u ''https://acme.avature.net/''
        then Some \<lparr>protocol = ''https:'', host = ''acme.avature.net'', hostname = ''acme.avature.net''\<rparr>
        else None),
      clock = ''2026-02-03T10:00:00.000Z''\<rparr>"

definition emptyWorld :: world where
  "emptyWorld = \<lparr>dataset = [], requestQueue = [], errorSamples = []\<rparr>"

definition detailPage :: document where
  \<comment> \<open>a detail page with a script inside its main content\<close>
  "detailPage = [Element ''html'' [] [
      Element ''head'' [] [
        Element ''title'' [] [Text ''Careers''],
        Element ''style'' [] [Text ''h1 { color: red }'']],
      Element ''body'' [] [
        Element ''main'' [] [
          Element ''h1'' [] [Text ''Senior Software Engineer''],
          Element ''script'' [] [Text ''var twigConfig = 1;''],
          Element ''p'' [] [Element ''strong'' [] [Text ''Location:''], Text '' Berlin''],
          Element ''p'' [] [Element ''strong'' [] [Text ''Ref #:''], Text '' 99''],
          Element ''noscript'' [] [Text ''Enable scripts'']]]]]"

definition hintedRequest :: request where
  \<comment> \<open>a request that a listing page enqueued with hints\<close>
  "hintedRequest = \<lparr>r_url = detailUrl, r_loadedUrl = Some detailUrl, r_label = Some JOB_DETAIL,
      r_userData = \<lparr>ud_title = Some ''Staff Engineer'',
        ud_subtitles = Some [(''location'', ''Munich''), (''workingTime'', ''Full time''),
          (''contractType'', ''Permanent''), (''department'', ''Research''),
          (''legalEntity'', ''Acme GmbH''), (''ref'', ''REF #7781'')]\<rparr>\<rparr>"

definition plainRequest :: request where
  \<comment> \<open>a request without hints\<close>
  "plainRequest = \<lparr>r_url = detailUrl, r_loadedUrl = None, r_label = Some JOB_DETAIL,
      r_userData = noUserData\<rparr>"

definition refMarkRequest :: request where
  \<comment> \<open>a request whose ref hint holds the mark only\<close>
  "refMarkRequest = \<lparr>r_url = detailUrl, r_loadedUrl = None, r_label = Some JOB_DETAIL,
      r_userData = \<lparr>ud_title = None, ud_subtitles = Some [(''ref'', ''Ref #'')]\<rparr>\<rparr>"

fun kidsAt :: "node list \<Rightarrow> path \<Rightarrow> node list option" where
  \<comment> \<open>the children of the node at a path; the top nodes for the empty path\<close>
  "kidsAt ns [] = Some ns"
| "kidsAt ns (i # p) = (if i < length ns then kidsAt (children (ns ! i)) p else None)"

definition scriptTags :: "string list" where
  "scriptTags = [''script'', ''style'', ''noscript'']"

fun withoutScripts :: "node list \<Rightarrow> node list" where
  \<comment> \<open>the tree without its script, style and noscript elements, described directly\<close>
  "withoutScripts [] = []"
| "withoutScripts (Element t as kids # ns) =
     (if t \<in> set scriptTags then [] else [Element t as (withoutScripts kids)]) @ withoutScripts ns"
| "withoutScripts (Text s # ns) = Text s # withoutScripts ns"
| "withoutScripts (Comment s # ns) = Comment s # withoutScripts ns"

fun visibleText :: "node list \<Rightarrow> string" where
  \<comment> \<open>the text of a tree outside its script, style and noscript elements\<close>
  "visibleText [] = []"
| "visibleText (Element t as kids # ns) =
     (if t \<in> set scriptTags then [] else visibleText kids) @ visibleText ns"
| "visibleText (Text s # ns) = s @ visibleText ns"
| "visibleText (Comment s # ns) = visibleText ns"

fun hasTag :: "string list \<Rightarrow> node list \<Rightarrow> bool" where
  \<comment> \<open>some element of the tree has one of the tags\<close>
  "hasTag ts [] = False"
| "hasTag ts (Element t as kids # ns) = (t \<in> set ts \<or> hasTag ts kids \<or> hasTag ts ns)"
| "hasTag ts (Text s # ns) = hasTag ts ns"
| "hasTag ts (Comment s # ns) = hasTag ts ns"

definition refPage :: document where
  \<comment> \<open>a detail page that states a job number\<close>
  "refPage = [Element ''html'' [] [
      Element ''body'' [] [
        Element ''p'' [] [Element ''strong'' [] [Text ''Job #:''], Text '' 99'']]]]"

definition hintedJob :: job where
  "hintedJob = jobData acmeEnv hintedRequest (createFieldExtractor detailPage) detailUrl ''acme'' None"

definition refMarkJob :: job where
  "refMarkJob = jobData acmeEnv refMarkRequest (createFieldExtractor refPage) detailUrl ''acme'' None"

definition hiddenSelector :: selector where
  \<comment> \<open>\<open>'.visibility--hidden--visually'\<close>\<close>
  "hiddenSelector = [Compound [Class ''visibility--hidden--visually'']]"



definition signInPage :: document where
  "signInPage = [Element ''html'' [] [
      Element ''body'' [] [Element ''p'' [] [Text ''Please sign in to continue'']]]]"

definition signInContext :: crawlingContext where
  \<comment> \<open>a response with the status 200 whose page asks the visitor to sign in\<close>
  "signInContext = \<lparr>c_request = plainRequest, c_statusCode = Some 200,
      c_body = ''<html><body><p>Please sign in to continue</p></body></html>'',
      c_doc = signInPage\<rparr>"

definition signInJob :: job where
  "signInJob = jobData acmeEnv plainRequest (createFieldExtractor signInPage) detailUrl ''acme'' None"

definition ciIncludes :: "string \<Rightarrow> string \<Rightarrow> bool" where
  \<comment> \<open>the text holds the word, whatever the case of the letters\<close>
  "ciIncludes text w = includesStr (map toUpperChar text) (map toUpperChar w)"

definition needs :: "re \<Rightarrow> string \<Rightarrow> bool" where
  \<comment> \<open>every text that the expression matches holds the word, whatever the case\<close>
  "needs r w = rel r (\<lambda>g c c'. \<exists>a b. map toUpperChar g = a @ map toUpperChar w @ b)"

definition errorWords :: "string list" where
  \<comment> \<open>for each pattern of ERROR_PAGE_PATTERNS, in order, a word that every match holds\<close>
  "errorWords = [''page'', ''404'', ''not'', ''access'', ''forbidden'', ''403'', ''unauthorized'',
     ''401'', ''login'', ''required'', ''authentication'', ''session'', ''internal'', ''500'',
     ''service'', ''503'', ''temporarily'', ''maintenance'', ''under'', ''job'', ''position'',
     ''this'', ''multiple'', ''rate'', ''too'']"

definition cardUrls :: "string \<Rightarrow> document \<Rightarrow> string list" where
  \<comment> \<open>the absolute addresses of the links of the cards of a listing page, card by card\<close>
  "cardUrls baseUrl d = map (resolveUrl baseUrl) (List.map_filter (cardHref d) (select d cardSelector))"

definition detailTasks :: "task list \<Rightarrow> task list" where
  \<comment> \<open>the requests with the label JOB_DETAIL\<close>
  "detailTasks ts = filter (\<lambda>t. t_label t = Some JOB_DETAIL) ts"

definition listingUrl :: string where
  "listingUrl = ''https://acme.avature.net/careers/SearchJobs''"

definition listingRequest :: request where
  "listingRequest = \<lparr>r_url = listingUrl, r_loadedUrl = Some listingUrl, r_label = Some LISTING,
      r_userData = noUserData\<rparr>"

definition jobCard :: "string \<Rightarrow> string \<Rightarrow> node" where
  \<comment> \<open>a card of a listing page with its link and its title\<close>
  "jobCard href t = Element ''div'' [(''class'', ''article'')] [
      Element ''h3'' [(''class'', ''article__header__text__title'')] [
        Element ''a'' [(''href'', href)] [Text t]]]"

definition listingPage :: document where
  \<comment> \<open>three cards, a fourth card with the address of the first, and a link to the next page\<close>
  "listingPage = [Element ''html'' [] [
      Element ''body'' [] [
        Element ''div'' [(''class'', ''section__content__results'')] [
          jobCard ''/careers/JobDetail/Engineer/1'' ''Engineer'',
          jobCard ''https://acme.avature.net/careers/JobDetail/Analyst/2'' ''Analyst'',
          jobCard ''careers/JobDetail/Designer/3'' ''Designer'',
          jobCard ''https://acme.avature.net/careers/JobDetail/Engineer/1'' ''Engineer again''],
        Element ''a'' [(''href'', ''/careers/SearchJobs?jobOffset=10'')] [Text ''Next'']]]]"

definition cardTask :: "string \<Rightarrow> string \<Rightarrow> task" where
  "cardTask u t = \<lparr>t_url = u, t_label = Some JOB_DETAIL,
      t_userData = \<lparr>ud_title = Some t, ud_subtitles = Some []\<rparr>\<rparr>"

definition emptyListingPage :: document where
  \<comment> \<open>a listing page without cards\<close>
  "emptyListingPage = [Element ''html'' [] [
      Element ''body'' [] [
        Element ''div'' [(''class'', ''section__content__results'')] [
          Element ''p'' [] [Text ''No open roles'']]]]]"

definition emptyListingContext :: crawlingContext where
  "emptyListingContext = \<lparr>c_request = listingRequest, c_statusCode = Some 200,
      c_body = ''<html><body><div class=\"section__content__results\"><p>No open roles</p></div></body></html>'',
      c_doc = emptyListingPage\<rparr>"

section \<open>Properties of the matcher\<close>

lemma relI:
  "(\<And>pre rest caps pre' rest' caps'. (pre', rest', caps') \<in> set (ms r (pre, rest, caps)) \<Longrightarrow>
      \<exists>g. pre' = pre @ g \<and> rest = g @ rest' \<and> R g caps caps') \<Longrightarrow> rel r R"
  unfolding rel_def by blast

lemma relD:
  "rel r R \<Longrightarrow> (pre', rest', caps') \<in> set (ms r (pre, rest, caps)) \<Longrightarrow>
      \<exists>g. pre' = pre @ g \<and> rest = g @ rest' \<and> R g caps caps'"
  unfolding rel_def by blast

lemma rel_weaken: "rel r R \<Longrightarrow> (\<And>g c c'. R g c c' \<Longrightarrow> R' g c c') \<Longrightarrow> rel r R'"
  unfolding rel_def by blast

lemma rel_Cls: "rel (Cls P) (\<lambda>g c c'. (\<exists>x. g = [x] \<and> P x) \<and> c' = c)"
  by (rule relI) (auto split: list.splits if_splits)

lemma rel_Eps: "rel Eps (\<lambda>g c c'. g = [] \<and> c' = c)"
  by (rule relI) simp

lemma rel_Cat:
  assumes "rel a Ra" and "rel b Rb"
  shows "rel (Cat a b) (\<lambda>g c c'. \<exists>g1 g2 cm. g = g1 @ g2 \<and> Ra g1 c cm \<and> Rb g2 cm c')"
proof (rule relI)
  fix pre rest caps pre' rest' caps'
  assume "(pre', rest', caps') \<in> set (ms (Cat a b) (pre, rest, caps))"
  then obtain mid where m: "mid \<in> set (ms a (pre, rest, caps))" "(pre', rest', caps') \<in> set (ms b mid)"
    by (subst (asm) ms.simps) (auto simp del: ms.simps)
  obtain pm rm cm where mid: "mid = (pm, rm, cm)" by (cases mid) auto
  from relD[OF assms(1) m(1)[unfolded mid]] obtain g1 where
    g1: "pm = pre @ g1" "rest = g1 @ rm" "Ra g1 caps cm" by blast
  from relD[OF assms(2) m(2)[unfolded mid]] obtain g2 where
    g2: "pre' = pm @ g2" "rm = g2 @ rest'" "Rb g2 cm caps'" by blast
  from g1 g2 show "\<exists>g. pre' = pre @ g \<and> rest = g @ rest' \<and>
      (\<exists>g1 g2 cm. g = g1 @ g2 \<and> Ra g1 caps cm \<and> Rb g2 cm caps')"
    by (intro exI[of _ "g1 @ g2"]) auto
qed

lemma rel_Alt:
  assumes "rel a Ra" and "rel b Rb"
  shows "rel (Alt a b) (\<lambda>g c c'. Ra g c c' \<or> Rb g c c')"
proof (rule relI)
  fix pre rest caps pre' rest' caps'
  assume "(pre', rest', caps') \<in> set (ms (Alt a b) (pre, rest, caps))"
  then have "(pre', rest', caps') \<in> set (ms a (pre, rest, caps))
           \<or> (pre', rest', caps') \<in> set (ms b (pre, rest, caps))"
    by (subst (asm) ms.simps) (simp del: ms.simps)
  then show "\<exists>g. pre' = pre @ g \<and> rest = g @ rest' \<and> (Ra g caps caps' \<or> Rb g caps caps')"
    using relD[OF assms(1)] relD[OF assms(2)] by blast
qed







lemma search_sound:
  "search r pre rest = Some (i, st') \<Longrightarrow>
     \<exists>p q. rest = p @ q \<and> i = length pre + length p \<and> st' \<in> set (ms r (pre @ p, q, Map.empty))"
proof (induction rest arbitrary: pre)
  case Nil
  then show ?case by (auto split: list.splits)
next
  case (Cons c cs)
  show ?case
  proof (cases "ms r (pre, c # cs, Map.empty)")
    case Nil
    with Cons.prems have "search r (pre @ [c]) cs = Some (i, st')" by simp
    from Cons.IH[OF this] obtain p q where
      "cs = p @ q" "i = length (pre @ [c]) + length p" "st' \<in> set (ms r ((pre @ [c]) @ p, q, Map.empty))"
      by blast
    then show ?thesis by (intro exI[of _ "c # p"] exI[of _ q]) simp
  next
    case (Cons x xs)
    with Cons.prems have "i = length pre" "st' = x" by simp_all
    with Cons show ?thesis by (intro exI[of _ "[]"] exI[of _ "c # cs"]) simp
  qed
qed


lemma re_test_match: "re_test r s = (re_match r s \<noteq> None)"
  by (auto simp: re_test_def re_match_def split: option.splits)

lemma re_match_sound:
  assumes "rel r R" and "re_match r s = Some m"
  shows "\<exists>p g q. s = p @ g @ q \<and> m_index m = length p \<and> m_text m = g \<and> R g Map.empty (m_group m)"
proof -
  from assms(2) obtain i pre' rest' caps' where
    s: "search r [] s = Some (i, pre', rest', caps')"
    and m: "m = \<lparr>m_index = i, m_text = drop i pre', m_group = caps'\<rparr>"
    by (auto simp: re_match_def split: option.splits)
  from search_sound[OF s] obtain p q where
    pq: "s = p @ q" "i = length p" "(pre', rest', caps') \<in> set (ms r (p, q, Map.empty))"
    by auto
  from relD[OF assms(1) pq(3)] obtain g where "pre' = p @ g" "q = g @ rest'" "R g Map.empty caps'"
    by blast
  with pq(1,2) m show ?thesis
    by (intro exI[of _ p] exI[of _ g] exI[of _ rest']) simp
qed

































section \<open>Claims about parseDate\<close>







text \<open>
  The slip that the amended claim leaves out: the month table is an object literal, so
  the key constructor finds the inherited constructor function, which is truthy.
\<close>

lemma parseDate_constructor:
  "parseDate (Some ''Constructor 5, 2025'') = Some ''2025-function Object() { [native code] }-05''"
  by code_simp

section \<open>Claims about parseSalary\<close>




lemma firstSome_Some: "firstSome f xs = Some v \<Longrightarrow> \<exists>x \<in> set xs. f x = Some v"
  by (induction xs) (auto split: option.splits)

lemma selectorCandidate_ok: "selectorCandidate d sel = Some t \<Longrightarrow> acceptableHeading t"
  by (auto simp: selectorCandidate_def Let_def split: list.splits if_splits)

lemma headingCandidate_ok: "headingCandidate d el = Some t \<Longrightarrow> acceptableHeading t"
  by (auto simp: headingCandidate_def Let_def split: if_splits)

lemma selectorTitle_ok: "selectorTitle d = Some t \<Longrightarrow> acceptableHeading t"
  unfolding selectorTitle_def by (blast dest: firstSome_Some selectorCandidate_ok)

lemma headingTitle_ok: "headingTitle d = Some t \<Longrightarrow> acceptableHeading t"
  unfolding headingTitle_def by (blast dest: firstSome_Some headingCandidate_ok)

section \<open>Claims about getJobTitle\<close>

text \<open>
  C4, as amended. The denylist of company names guards the heading strategies only: a
  title that getJobTitle takes from an h1 heading, by the selector list of Method 4 or by
  the scan of Method 5, never matches the denylist, and a heading that matches it is
  rejected, so that the cascade proceeds to the next selector or heading. Hence the title
  never matches the denylist when the og:title, page-title, field-value and URL-slug
  strategies yield none; these four strategies return their candidate unfiltered.
\<close>

theorem getJobTitle_heading_denylist:
  "(selectorTitle d = Some t \<longrightarrow> \<not> isCompanyName t)
   \<and> (headingTitle d = Some t \<longrightarrow> \<not> isCompanyName t)
   \<and> (ogTitle d = None \<and> pageTitle d = None \<and> bloombergTitle d = None \<and> slugTitle u = None
        \<and> getJobTitle d u = Some t \<longrightarrow> \<not> isCompanyName t)
   \<and> (first (select d selector) = [el] \<and> isCompanyName (trim (textOf d [el])) \<longrightarrow>
        selectorCandidate d selector = None
        \<and> firstSome (selectorCandidate d) (selector # selectors) = firstSome (selectorCandidate d) selectors)
   \<and> (isCompanyName (trim (textOf d [el])) \<longrightarrow>
        headingCandidate d el = None
        \<and> firstSome (headingCandidate d) (el # els) = firstSome (headingCandidate d) els)"
proof (intro conjI impI)
  assume "selectorTitle d = Some t"
  from selectorTitle_ok[OF this] show "\<not> isCompanyName t" by (simp add: acceptableHeading_def)
next
  assume "headingTitle d = Some t"
  from headingTitle_ok[OF this] show "\<not> isCompanyName t" by (simp add: acceptableHeading_def)
next
  assume a: "ogTitle d = None \<and> pageTitle d = None \<and> bloombergTitle d = None \<and> slugTitle u = None
        \<and> getJobTitle d u = Some t"
  then have "selectorTitle d = Some t \<or> headingTitle d = Some t"
    by (auto simp: getJobTitle_def split: option.splits)
  then have "acceptableHeading t" using selectorTitle_ok headingTitle_ok by blast
  then show "\<not> isCompanyName t" by (simp add: acceptableHeading_def)
next
  assume a: "first (select d selector) = [el] \<and> isCompanyName (trim (textOf d [el]))"
  then show c: "selectorCandidate d selector = None"
    by (simp add: selectorCandidate_def acceptableHeading_def)
  then show "firstSome (selectorCandidate d) (selector # selectors) = firstSome (selectorCandidate d) selectors"
    by simp
next
  assume a: "isCompanyName (trim (textOf d [el]))"
  then show c: "headingCandidate d el = None"
    by (simp add: headingCandidate_def acceptableHeading_def)
  then show "firstSome (headingCandidate d) (el # els) = firstSome (headingCandidate d) els"
    by simp
qed

theorem getJobTitle_heading_denylist_witness:
  "selectorTitle brandedHeadings = Some ''Senior Software Engineer''
   \<and> getJobTitle brandedHeadings detailUrl = Some ''Senior Software Engineer''
   \<and> \<not> isCompanyName ''Senior Software Engineer''
   \<and> first (select brandedHeadings (hd titleSelectors)) = [[0, 1, 0, 0]]
   \<and> isCompanyName (trim (textOf brandedHeadings [[0, 1, 0, 0]]))
   \<and> selectorCandidate brandedHeadings (hd titleSelectors) = None
   \<and> headingCandidate brandedHeadings [0, 1, 0, 0] = None"
proof -
  have h1: "selectorTitle brandedHeadings = Some ''Senior Software Engineer''" by code_simp
  have h2: "getJobTitle brandedHeadings detailUrl = Some ''Senior Software Engineer''" by code_simp
  have h3: "first (select brandedHeadings (hd titleSelectors)) = [[0, 1, 0, 0]]
            \<and> isCompanyName (trim (textOf brandedHeadings [[0, 1, 0, 0]]))" by code_simp
  note T = getJobTitle_heading_denylist[of brandedHeadings "''Senior Software Engineer''" detailUrl
             "hd titleSelectors" "[0, 1, 0, 0]" "[]" "[]"]
  note r1 = T[THEN conjunct1, THEN mp, OF h1]
  note r2 = T[THEN conjunct2, THEN conjunct2, THEN conjunct2, THEN conjunct1, THEN mp, OF h3,
              THEN conjunct1]
  note r3 = T[THEN conjunct2, THEN conjunct2, THEN conjunct2, THEN conjunct2, THEN mp,
              OF h3[THEN conjunct2], THEN conjunct1]
  show ?thesis
    by (intro conjI h1 h2 r1 h3[THEN conjunct1] h3[THEN conjunct2] r2 r3)
qed

text \<open>
  The claim C4 as stated, for every strategy of the cascade, fails on a page whose
  og:title is the name of a company: Method 1 returns it.
\<close>

theorem getJobTitle_denylist_counterexample:
  "getJobTitle (createFieldExtractor brandedPage) detailUrl = Some ''Bloomberg''
   \<and> isCompanyName ''Bloomberg''"
  by code_simp

section \<open>Properties of the document queries and of the detail handler\<close>

lemma nodeAt_snoc:
  "nodeAt ns (pre @ [i]) = (case kidsAt ns pre of None \<Rightarrow> None
      | Some ks \<Rightarrow> if i < length ks then Some (ks ! i) else None)"
proof (induction pre arbitrary: ns)
  case Nil
  show ?case by simp
next
  case (Cons j pre)
  show ?case
  proof (cases pre)
    case Nil
    then show ?thesis using Cons.IH[of "children (ns ! j)"] by simp
  next
    case (Cons k pre')
    then show ?thesis using Cons.IH[of "children (ns ! j)"] by simp
  qed
qed

lemma kidsAt_snoc:
  "kidsAt ns (pre @ [i]) = (case kidsAt ns pre of None \<Rightarrow> None
      | Some ks \<Rightarrow> if i < length ks then Some (children (ks ! i)) else None)"
  by (induction pre arbitrary: ns) auto

lemma matches_scriptSelector:
  "matches d scriptSelector p =
     (case nodeAt d p of Some n \<Rightarrow> isElement n \<and> tagName n \<in> set scriptTags | None \<Rightarrow> False)"
  by (auto simp: matches_def scriptSelector_def scriptTags_def split: option.splits)

lemma drop_Cons_split:
  assumes "x # xs = drop i ks"
  shows "i < length ks \<and> ks ! i = x \<and> xs = drop (Suc i) ks"
proof -
  have i: "i < length ks"
  proof (rule ccontr)
    assume "\<not> i < length ks"
    with assms show False by simp
  qed
  from Cons_nth_drop_Suc[OF i] assms have "ks ! i # drop (Suc i) ks = x # xs" by simp
  with i show ?thesis by simp
qed

lemma removeFrom_scripts:
  "kidsAt d pre = Some ks \<Longrightarrow> ns = drop i ks \<Longrightarrow>
     removeFrom d scriptSelector pre i ns = withoutScripts ns"
proof (induction ns arbitrary: pre i ks rule: withoutScripts.induct)
  case 1
  show ?case by simp
next
  case (2 t as kids ns)
  from drop_Cons_split[OF "2.prems"(2)] have i: "i < length ks" and at: "ks ! i = Element t as kids"
    and rest: "ns = drop (Suc i) ks"
    by simp_all
  from "2.prems"(1) i at have n: "nodeAt d (pre @ [i]) = Some (Element t as kids)"
    by (simp add: nodeAt_snoc)
  from "2.prems"(1) i at have k: "kidsAt d (pre @ [i]) = Some kids"
    by (simp add: kidsAt_snoc)
  have m: "matches d scriptSelector (pre @ [i]) = (t \<in> set scriptTags)"
    by (simp add: matches_scriptSelector n)
  have r: "removeFrom d scriptSelector pre (Suc i) ns = withoutScripts ns"
    by (rule "2.IH"(2)[OF "2.prems"(1) rest])
  show ?case
  proof (cases "t \<in> set scriptTags")
    case True
    with m r show ?thesis by simp
  next
    case False
    have "removeFrom d scriptSelector (pre @ [i]) 0 kids = withoutScripts kids"
      by (rule "2.IH"(1)[OF False k]) simp
    with False m r show ?thesis by simp
  qed
next
  case (3 s ns)
  from drop_Cons_split[OF "3.prems"(2)] have "ns = drop (Suc i) ks" by simp
  from "3.IH"[OF "3.prems"(1) this] show ?case by simp
next
  case (4 s ns)
  from drop_Cons_split[OF "4.prems"(2)] have "ns = drop (Suc i) ks" by simp
  from "4.IH"[OF "4.prems"(1) this] show ?case by simp
qed

lemma createFieldExtractor_withoutScripts: "createFieldExtractor d = withoutScripts d"
  unfolding createFieldExtractor_def remove_def
  by (rule removeFrom_scripts[of d "[]" d]) simp_all

lemma withoutScripts_hasTag: "\<not> hasTag scriptTags (withoutScripts ns)"
  by (induction ns rule: withoutScripts.induct) auto

lemma withoutScripts_text: "concat (map textContent (withoutScripts ns)) = visibleText ns"
  by (induction ns rule: withoutScripts.induct) auto

lemma hasTag_kidsAt:
  "\<not> hasTag ts ns \<Longrightarrow> kidsAt ns p = Some ks \<Longrightarrow> \<not> hasTag ts ks"
proof (induction p arbitrary: ns)
  case Nil
  then show ?case by simp
next
  case (Cons i p)
  from Cons.prems(2) have i: "i < length ns" and k: "kidsAt (children (ns ! i)) p = Some ks"
    by (auto split: if_splits)
  have "\<not> hasTag ts (children (ns ! i))"
    using Cons.prems(1) i
  proof (induction ns arbitrary: i rule: hasTag.induct)
    case (1 ts)
    then show ?case by simp
  next
    case (2 ts t as kids ns)
    then show ?case by (cases i) auto
  next
    case (3 ts s ns)
    then show ?case by (cases i) auto
  next
    case (4 ts s ns)
    then show ?case by (cases i) auto
  qed
  from Cons.IH[OF this k] show ?case .
qed

lemma hasTag_nth:
  "\<not> hasTag ts ns \<Longrightarrow> i < length ns \<Longrightarrow> isElement (ns ! i) \<Longrightarrow> tagName (ns ! i) \<notin> set ts"
proof (induction ns arbitrary: i rule: hasTag.induct)
  case (1 ts)
  then show ?case by simp
next
  case (2 ts t as kids ns)
  then show ?case by (cases i) auto
next
  case (3 ts s ns)
  then show ?case by (cases i) auto
next
  case (4 ts s ns)
  then show ?case by (cases i) auto
qed

lemma hasTag_nodeAt:
  assumes "\<not> hasTag ts ns" and "nodeAt ns p = Some n" and "isElement n"
  shows "tagName n \<notin> set ts"
proof (cases p rule: rev_cases)
  case Nil
  with assms(2) show ?thesis by simp
next
  case (snoc pre i)
  with assms(2) obtain ks where ks: "kidsAt ns pre = Some ks" "i < length ks" "n = ks ! i"
    by (auto simp: nodeAt_snoc split: option.splits if_splits)
  from hasTag_kidsAt[OF assms(1) ks(1)] have "\<not> hasTag ts ks" .
  from hasTag_nth[OF this ks(2)] assms(3) ks(3) show ?thesis by simp
qed


lemma pathsFrom_nonempty: "[] \<notin> set (pathsFrom i ns)"
  by (induction i ns rule: pathsFrom.induct) auto

lemma nodeAt_Cons_nonempty: "q \<noteq> [] \<Longrightarrow> i < length ns \<Longrightarrow> nodeAt ns (i # q) = nodeAt (children (ns ! i)) q"
  by (cases q) auto

lemma pathsFrom_nodeAt:
  "p \<in> set (pathsFrom i ns) \<Longrightarrow> length pre = i \<Longrightarrow>
     \<exists>n. nodeAt (pre @ ns) p = Some n \<and> isElement n"
proof (induction i ns arbitrary: pre p rule: pathsFrom.induct)
  case (1 i)
  then show ?case by simp
next
  case (2 i t as kids ns)
  from "2.prems"(1) consider "p = [i]" | q where "p = i # q" "q \<in> set (pathsFrom 0 kids)"
    | "p \<in> set (pathsFrom (Suc i) ns)" by auto
  then show ?case
  proof cases
    case 1
    with "2.prems"(2) show ?thesis by (simp add: nth_append)
  next
    case 2
    from 2(2) pathsFrom_nonempty have ne: "q \<noteq> []" by metis
    from "2.IH"(1)[OF 2(2), of "[]"] obtain n where n: "nodeAt kids q = Some n" "isElement n" by auto
    from "2.prems"(2) have "nodeAt (pre @ Element t as kids # ns) (i # q) = nodeAt kids q"
      by (subst nodeAt_Cons_nonempty[OF ne]) (simp_all add: nth_append)
    with n 2(1) show ?thesis by simp
  next
    case 3
    from "2.IH"(2)[OF 3, of "pre @ [Element t as kids]"] "2.prems"(2) show ?thesis by simp
  qed
next
  case (3 i s ns)
  from "3.IH"[of p "pre @ [Text s]"] "3.prems" show ?case by simp
next
  case (4 i s ns)
  from "4.IH"[of p "pre @ [Comment s]"] "4.prems" show ?case by simp
qed

lemma select_nodeAt: "p \<in> set (select d sel) \<Longrightarrow> \<exists>n. nodeAt d p = Some n \<and> isElement n"
  using pathsFrom_nodeAt[of p 0 d "[]"] by (simp add: select_def elements_def)

lemma jobDetailHandler_Inr:
  assumes "jobDetailHandler e r doc w = Inr (d', w')"
  shows "\<exists>sub au. d' = createFieldExtractor doc
     \<and> w' = w\<lparr>dataset := dataset w @ [jobData e r d' (requestUrl r) sub au]\<rparr>"
  using assms unfolding jobDetailHandler_def Let_def
  by (auto split: sum.splits)

lemma findApplyUrl_total:
  "urlParser e u \<noteq> None \<Longrightarrow> \<exists>au. findApplyUrl e d u els = Inr au"
  by (induction els) (auto simp: getBaseUrl_def split: option.splits)

lemma jobDetailHandler_returns:
  assumes "urlParser e (requestUrl r) \<noteq> None"
  shows "\<exists>sub au. jobDetailHandler e r doc w =
     Inr (createFieldExtractor doc,
          w\<lparr>dataset := dataset w @ [jobData e r (createFieldExtractor doc) (requestUrl r) sub au]\<rparr>)"
proof -
  from assms obtain sub where s: "getSubdomain e (requestUrl r) = Inr sub"
    by (auto simp: getSubdomain_def Let_def split: option.splits)
  from findApplyUrl_total[OF assms] obtain au where
    a: "findApplyUrl e (createFieldExtractor doc) (requestUrl r)
          (select (createFieldExtractor doc) applySelector) = Inr au" by blast
  from s a have "jobDetailHandler e r doc w =
     Inr (createFieldExtractor doc,
          w\<lparr>dataset := dataset w @ [jobData e r (createFieldExtractor doc) (requestUrl r) sub au]\<rparr>)"
    by (simp add: jobDetailHandler_def Let_def)
  then show ?thesis by blast
qed

lemma jobData_fields:
  "title (jobData e r d u sub au) = orElse (ud_title (r_userData r)) (getJobTitle d u)"
  "\<exists>h. location (jobData e r d u sub au) = orElse (hint r ''location'') (orElse (hint r ''locationBuiltIn'') h)"
  "\<exists>h. employmentType (jobData e r d u sub au) = orElse (hint r ''workingTime'') h"
  "\<exists>h. duration (jobData e r d u sub au) = orElse (hint r ''contractType'') h"
  "\<exists>h. department (jobData e r d u sub au) = orElse (hint r ''department'') h"
  "\<exists>h. entity (jobData e r d u sub au) = orElse (hint r ''legalEntity'') h"
  "\<exists>h. refNumber (jobData e r d u sub au) =
        (if orElse (refHint r) h \<noteq> jobId (jobData e r d u sub au) then orElse (refHint r) h else None)"
  "fullContent (jobData e r d u sub au) = trim (textOf d (first (select d mainSelector)))"
  "applyUrl (jobData e r d u sub au) = au"
  "subdomain (jobData e r d u sub au) = sub"
  "url (jobData e r d u sub au) = u"
  unfolding jobData_def Let_def by (simp_all, blast+)

section \<open>Claims about createFieldExtractor and the detail handler\<close>

text \<open>
  C10. createFieldExtractor changes the document that it is given when the extractor is
  built: the document that it leaves is the given one without its script, style and
  noscript elements. No later query finds such an element, whatever its selector, and
  the text of the document is the text outside these elements. The later queries of the
  detail handler run on this document, the full content of the record among them, and it
  is the document that the handler leaves to its caller.
\<close>

theorem createFieldExtractor_removes_scripts:
  "createFieldExtractor d = withoutScripts d
   \<and> \<not> hasTag scriptTags (createFieldExtractor d)
   \<and> (\<forall>sel p. p \<in> set (select (createFieldExtractor d) sel) \<longrightarrow>
         (\<exists>n. nodeAt (createFieldExtractor d) p = Some n \<and> tagName n \<notin> set scriptTags))
   \<and> concat (map textContent (createFieldExtractor d)) = visibleText d
   \<and> (\<forall>e r w d' w'. jobDetailHandler e r d w = Inr (d', w') \<longrightarrow>
         d' = createFieldExtractor d
         \<and> (\<exists>j. dataset w' = dataset w @ [j]
               \<and> fullContent j = trim (textOf d' (first (select d' mainSelector)))))"
proof (intro conjI allI impI)
  show "createFieldExtractor d = withoutScripts d" by (rule createFieldExtractor_withoutScripts)
  show n: "\<not> hasTag scriptTags (createFieldExtractor d)"
    by (simp add: createFieldExtractor_withoutScripts withoutScripts_hasTag)
  show "concat (map textContent (createFieldExtractor d)) = visibleText d"
    by (simp add: createFieldExtractor_withoutScripts withoutScripts_text)
  fix sel p
  assume "p \<in> set (select (createFieldExtractor d) sel)"
  from select_nodeAt[OF this] obtain n where
    x: "nodeAt (createFieldExtractor d) p = Some n" "isElement n" by blast
  from hasTag_nodeAt[OF n x] x(1)
  show "\<exists>n. nodeAt (createFieldExtractor d) p = Some n \<and> tagName n \<notin> set scriptTags" by blast
next
  fix e r w d' w'
  assume a: "jobDetailHandler e r d w = Inr (d', w')"
  from jobDetailHandler_Inr[OF a] obtain sub au where
    x: "d' = createFieldExtractor d"
       "w' = w\<lparr>dataset := dataset w @ [jobData e r d' (requestUrl r) sub au]\<rparr>" by blast
  from x(1) show "d' = createFieldExtractor d" .
  from x(2) show "\<exists>j. dataset w' = dataset w @ [j]
               \<and> fullContent j = trim (textOf d' (first (select d' mainSelector)))"
    by (intro exI[of _ "jobData e r d' (requestUrl r) sub au"]) (simp add: jobData_fields)
qed

theorem createFieldExtractor_removes_scripts_witness:
  "select detailPage scriptSelector = [[0, 0, 1], [0, 1, 0, 1], [0, 1, 0, 4]]
   \<and> select (createFieldExtractor detailPage) scriptSelector = []
   \<and> [0, 1, 0] \<in> set (select (createFieldExtractor detailPage) mainSelector)
   \<and> (\<exists>n. nodeAt (createFieldExtractor detailPage) [0, 1, 0] = Some n \<and> tagName n \<notin> set scriptTags)
   \<and> textOf detailPage [[0, 1, 0]] =
        ''Senior Software Engineervar twigConfig = 1;Location: BerlinRef #: 99Enable scripts''
   \<and> textOf (createFieldExtractor detailPage) [[0, 1, 0]] =
        ''Senior Software EngineerLocation: BerlinRef #: 99''
   \<and> jobDetailHandler acmeEnv plainRequest detailPage emptyWorld =
        Inr (createFieldExtractor detailPage,
             emptyWorld\<lparr>dataset := [jobData acmeEnv plainRequest (createFieldExtractor detailPage)
                                        detailUrl ''acme'' None]\<rparr>)
   \<and> (\<exists>j. dataset (emptyWorld\<lparr>dataset := [jobData acmeEnv plainRequest (createFieldExtractor detailPage)
                                        detailUrl ''acme'' None]\<rparr>) = dataset emptyWorld @ [j]
          \<and> fullContent j = trim (textOf (createFieldExtractor detailPage)
                                 (first (select (createFieldExtractor detailPage) mainSelector))))
   \<and> fullContent (jobData acmeEnv plainRequest (createFieldExtractor detailPage) detailUrl ''acme'' None)
        = ''Senior Software EngineerLocation: BerlinRef #: 99''"
proof -
  have a: "select detailPage scriptSelector = [[0, 0, 1], [0, 1, 0, 1], [0, 1, 0, 4]]" by code_simp
  have b: "select (createFieldExtractor detailPage) scriptSelector = []" by code_simp
  have c: "[0, 1, 0] \<in> set (select (createFieldExtractor detailPage) mainSelector)" by code_simp
  have t1: "textOf detailPage [[0, 1, 0]] =
        ''Senior Software Engineervar twigConfig = 1;Location: BerlinRef #: 99Enable scripts''"
    by code_simp
  have t2: "textOf (createFieldExtractor detailPage) [[0, 1, 0]] =
        ''Senior Software EngineerLocation: BerlinRef #: 99''" by code_simp
  have s1: "requestUrl plainRequest = detailUrl" by (simp add: requestUrl_def plainRequest_def)
  have s2: "getSubdomain acmeEnv detailUrl = Inr ''acme''" by code_simp
  have s3: "findApplyUrl acmeEnv (createFieldExtractor detailPage) detailUrl
              (select (createFieldExtractor detailPage) applySelector) = Inr None" by code_simp
  have h: "jobDetailHandler acmeEnv plainRequest detailPage emptyWorld =
        Inr (createFieldExtractor detailPage,
             emptyWorld\<lparr>dataset := [jobData acmeEnv plainRequest (createFieldExtractor detailPage)
                                        detailUrl ''acme'' None]\<rparr>)"
    by (simp add: jobDetailHandler_def Let_def s1 s2 s3 emptyWorld_def)
  have t3: "trim (textOf (createFieldExtractor detailPage)
                    (first (select (createFieldExtractor detailPage) mainSelector)))
            = ''Senior Software EngineerLocation: BerlinRef #: 99''" by code_simp
  have f: "fullContent (jobData acmeEnv plainRequest (createFieldExtractor detailPage) detailUrl ''acme'' None)
        = ''Senior Software EngineerLocation: BerlinRef #: 99''"
    by (simp add: jobData_fields t3)
  note T = createFieldExtractor_removes_scripts[of detailPage]
  note T3 = T[THEN conjunct2, THEN conjunct2, THEN conjunct1, THEN spec, THEN spec, THEN mp, OF c]
  note T5 = T[THEN conjunct2, THEN conjunct2, THEN conjunct2, THEN conjunct2,
              THEN spec, THEN spec, THEN spec, THEN spec, THEN spec, THEN mp, OF h, THEN conjunct2]
  show ?thesis by (intro conjI a b c T3 t1 t2 h T5 f)
qed

lemma orElse_truthy: "truthy a \<Longrightarrow> orElse a b = a"
  by (simp add: orElse_def)

lemma orElse_falsy: "\<not> truthy a \<Longrightarrow> orElse a b = b"
  by (simp add: orElse_def)

lemma jobData_jobId: "jobId (jobData e r d u sub au) = map_option (\<lambda>m. group m 1) (re_match jobIdRe u)"
  unfolding jobData_def Let_def by simp

lemma jobData_refNumber:
  "truthy (refHint r) \<Longrightarrow>
     refNumber (jobData e r d u sub au) =
       (if refHint r = jobId (jobData e r d u sub au) then None else refHint r)"
  unfolding jobData_def Let_def by (simp add: orElse_truthy)

lemma jobData_refNumber_heuristic:
  "refNumber (jobData e r d u sub au) =
     (let v = orElse (refHint r)
               (coalesce (getFieldByLabels d [''job #'', ''job number'', ''requisition'', ''req id'',
                                              ''position id'', ''opening id'', ''ref'', ''ref #''])
               (coalesce (getFieldFromText d [''Ref #'', ''Ref#'', ''Reference''])
                         (getTextByPattern d refRe)))
      in if v \<noteq> jobId (jobData e r d u sub au) then v else None)"
  unfolding jobData_def Let_def by simp

text \<open>
  C8. The detail handler has one effect: it pushes one record to the dataset. It asks for
  no request to be enqueued and writes no error sample. It returns whenever the address of
  the page can be parsed, which holds of every page that was loaded; where it throws, the
  address cannot be parsed, and nothing was pushed.
\<close>

theorem jobDetailHandler_single_emission:
  "(urlParser e (requestUrl r) \<noteq> None \<longrightarrow>
      (\<exists>d' j. jobDetailHandler e r doc w = Inr (d', w\<lparr>dataset := dataset w @ [j]\<rparr>)))
   \<and> (\<forall>d' w'. jobDetailHandler e r doc w = Inr (d', w') \<longrightarrow>
         (\<exists>j. dataset w' = dataset w @ [j])
         \<and> requestQueue w' = requestQueue w \<and> errorSamples w' = errorSamples w)
   \<and> (\<forall>err. jobDetailHandler e r doc w = Inl err \<longrightarrow> urlParser e (requestUrl r) = None)"
proof (intro conjI allI impI)
  assume "urlParser e (requestUrl r) \<noteq> None"
  from jobDetailHandler_returns[OF this] show
    "\<exists>d' j. jobDetailHandler e r doc w = Inr (d', w\<lparr>dataset := dataset w @ [j]\<rparr>)" by blast
next
  fix d' w'
  assume "jobDetailHandler e r doc w = Inr (d', w')"
  from jobDetailHandler_Inr[OF this] obtain sub au where
    x: "w' = w\<lparr>dataset := dataset w @ [jobData e r d' (requestUrl r) sub au]\<rparr>" by blast
  from x show "\<exists>j. dataset w' = dataset w @ [j]" by simp
  from x show "requestQueue w' = requestQueue w" by simp
  from x show "errorSamples w' = errorSamples w" by simp
next
  fix err
  assume a: "jobDetailHandler e r doc w = Inl err"
  show "urlParser e (requestUrl r) = None"
  proof (rule ccontr)
    assume "urlParser e (requestUrl r) \<noteq> None"
    from jobDetailHandler_returns[OF this, of doc w] a show False by auto
  qed
qed

theorem jobDetailHandler_single_emission_witness:
  "urlParser acmeEnv (requestUrl plainRequest) \<noteq> None
   \<and> jobDetailHandler acmeEnv plainRequest detailPage emptyWorld =
        Inr (createFieldExtractor detailPage,
             emptyWorld\<lparr>dataset := [jobData acmeEnv plainRequest (createFieldExtractor detailPage)
                                        detailUrl ''acme'' None]\<rparr>)
   \<and> (\<exists>d' j. jobDetailHandler acmeEnv plainRequest detailPage emptyWorld =
                 Inr (d', emptyWorld\<lparr>dataset := dataset emptyWorld @ [j]\<rparr>))
   \<and> (\<exists>j. dataset (emptyWorld\<lparr>dataset := [jobData acmeEnv plainRequest
                (createFieldExtractor detailPage) detailUrl ''acme'' None]\<rparr>) = dataset emptyWorld @ [j])
   \<and> requestQueue (emptyWorld\<lparr>dataset := [jobData acmeEnv plainRequest
                (createFieldExtractor detailPage) detailUrl ''acme'' None]\<rparr>) = requestQueue emptyWorld
   \<and> errorSamples (emptyWorld\<lparr>dataset := [jobData acmeEnv plainRequest
                (createFieldExtractor detailPage) detailUrl ''acme'' None]\<rparr>) = errorSamples emptyWorld"
proof -
  have p: "urlParser acmeEnv (requestUrl plainRequest) \<noteq> None" by code_simp
  have s1: "requestUrl plainRequest = detailUrl" by (simp add: requestUrl_def plainRequest_def)
  have s2: "getSubdomain acmeEnv detailUrl = Inr ''acme''" by code_simp
  have s3: "findApplyUrl acmeEnv (createFieldExtractor detailPage) detailUrl
              (select (createFieldExtractor detailPage) applySelector) = Inr None" by code_simp
  have h: "jobDetailHandler acmeEnv plainRequest detailPage emptyWorld =
        Inr (createFieldExtractor detailPage,
             emptyWorld\<lparr>dataset := [jobData acmeEnv plainRequest (createFieldExtractor detailPage)
                                        detailUrl ''acme'' None]\<rparr>)"
    by (simp add: jobDetailHandler_def Let_def s1 s2 s3 emptyWorld_def)
  note T = jobDetailHandler_single_emission[of acmeEnv plainRequest detailPage emptyWorld]
  note T1 = T[THEN conjunct1, THEN mp, OF p]
  note T2 = T[THEN conjunct2, THEN conjunct1, THEN spec, THEN spec, THEN mp, OF h]
  show ?thesis
    by (intro conjI p h T1 T2[THEN conjunct1] T2[THEN conjunct2, THEN conjunct1]
              T2[THEN conjunct2, THEN conjunct2])
qed

text \<open>
  C1, as amended. A hint that is not empty is the value of the record, and the heuristic
  of the field is not used, for the title, the location (the key location, else the key
  locationBuiltIn), the employment type (workingTime), the duration (contractType), the
  department and the entity (legalEntity). For the reference number the hint (the key
  ref) is first put in lower case and freed of every mark \<open>ref #\<close>; when what is left
  is not empty, it replaces the heuristic, and the record holds it unless it equals the
  job id, in which case the record holds null.
\<close>

theorem jobDetailHandler_hints:
  "jobDetailHandler e r doc w = Inr (d', w') \<longrightarrow>
     (\<exists>j. dataset w' = dataset w @ [j]
        \<and> (truthy (ud_title (r_userData r)) \<longrightarrow> title j = ud_title (r_userData r))
        \<and> (truthy (hint r ''location'') \<longrightarrow> location j = hint r ''location'')
        \<and> (\<not> truthy (hint r ''location'') \<and> truthy (hint r ''locationBuiltIn'') \<longrightarrow>
              location j = hint r ''locationBuiltIn'')
        \<and> (truthy (hint r ''workingTime'') \<longrightarrow> employmentType j = hint r ''workingTime'')
        \<and> (truthy (hint r ''contractType'') \<longrightarrow> duration j = hint r ''contractType'')
        \<and> (truthy (hint r ''department'') \<longrightarrow> department j = hint r ''department'')
        \<and> (truthy (hint r ''legalEntity'') \<longrightarrow> entity j = hint r ''legalEntity'')
        \<and> (truthy (refHint r) \<longrightarrow>
              refNumber j = (if refHint r = jobId j then None else refHint r)))"
proof
  assume "jobDetailHandler e r doc w = Inr (d', w')"
  from jobDetailHandler_Inr[OF this] obtain sub au where
    x: "w' = w\<lparr>dataset := dataset w @ [jobData e r d' (requestUrl r) sub au]\<rparr>" by blast
  let ?j = "jobData e r d' (requestUrl r) sub au"
  have "dataset w' = dataset w @ [?j]" using x by simp
  moreover have "truthy (ud_title (r_userData r)) \<longrightarrow> title ?j = ud_title (r_userData r)"
    by (simp add: jobData_fields orElse_truthy)
  moreover have "truthy (hint r ''location'') \<longrightarrow> location ?j = hint r ''location''"
    using jobData_fields(2)[of e r d' "requestUrl r" sub au] by (auto simp: orElse_truthy)
  moreover have "\<not> truthy (hint r ''location'') \<and> truthy (hint r ''locationBuiltIn'') \<longrightarrow>
              location ?j = hint r ''locationBuiltIn''"
    using jobData_fields(2)[of e r d' "requestUrl r" sub au]
    by (auto simp: orElse_truthy orElse_falsy)
  moreover have "truthy (hint r ''workingTime'') \<longrightarrow> employmentType ?j = hint r ''workingTime''"
    using jobData_fields(3)[of e r d' "requestUrl r" sub au] by (auto simp: orElse_truthy)
  moreover have "truthy (hint r ''contractType'') \<longrightarrow> duration ?j = hint r ''contractType''"
    using jobData_fields(4)[of e r d' "requestUrl r" sub au] by (auto simp: orElse_truthy)
  moreover have "truthy (hint r ''department'') \<longrightarrow> department ?j = hint r ''department''"
    using jobData_fields(5)[of e r d' "requestUrl r" sub au] by (auto simp: orElse_truthy)
  moreover have "truthy (hint r ''legalEntity'') \<longrightarrow> entity ?j = hint r ''legalEntity''"
    using jobData_fields(6)[of e r d' "requestUrl r" sub au] by (auto simp: orElse_truthy)
  moreover have "truthy (refHint r) \<longrightarrow>
              refNumber ?j = (if refHint r = jobId ?j then None else refHint r)"
    by (simp add: jobData_refNumber)
  ultimately show "\<exists>j. dataset w' = dataset w @ [j]
        \<and> (truthy (ud_title (r_userData r)) \<longrightarrow> title j = ud_title (r_userData r))
        \<and> (truthy (hint r ''location'') \<longrightarrow> location j = hint r ''location'')
        \<and> (\<not> truthy (hint r ''location'') \<and> truthy (hint r ''locationBuiltIn'') \<longrightarrow>
              location j = hint r ''locationBuiltIn'')
        \<and> (truthy (hint r ''workingTime'') \<longrightarrow> employmentType j = hint r ''workingTime'')
        \<and> (truthy (hint r ''contractType'') \<longrightarrow> duration j = hint r ''contractType'')
        \<and> (truthy (hint r ''department'') \<longrightarrow> department j = hint r ''department'')
        \<and> (truthy (hint r ''legalEntity'') \<longrightarrow> entity j = hint r ''legalEntity'')
        \<and> (truthy (refHint r) \<longrightarrow>
              refNumber j = (if refHint r = jobId j then None else refHint r))"
    by (intro exI[of _ ?j] conjI)
qed

theorem jobDetailHandler_hints_witness:
  "jobDetailHandler acmeEnv hintedRequest detailPage emptyWorld =
      Inr (createFieldExtractor detailPage, emptyWorld\<lparr>dataset := [hintedJob]\<rparr>)
   \<and> (\<exists>j. dataset (emptyWorld\<lparr>dataset := [hintedJob]\<rparr>) = dataset emptyWorld @ [j]
        \<and> (truthy (ud_title (r_userData hintedRequest)) \<longrightarrow> title j = ud_title (r_userData hintedRequest))
        \<and> (truthy (hint hintedRequest ''location'') \<longrightarrow> location j = hint hintedRequest ''location'')
        \<and> (\<not> truthy (hint hintedRequest ''location'') \<and> truthy (hint hintedRequest ''locationBuiltIn'') \<longrightarrow>
              location j = hint hintedRequest ''locationBuiltIn'')
        \<and> (truthy (hint hintedRequest ''workingTime'') \<longrightarrow> employmentType j = hint hintedRequest ''workingTime'')
        \<and> (truthy (hint hintedRequest ''contractType'') \<longrightarrow> duration j = hint hintedRequest ''contractType'')
        \<and> (truthy (hint hintedRequest ''department'') \<longrightarrow> department j = hint hintedRequest ''department'')
        \<and> (truthy (hint hintedRequest ''legalEntity'') \<longrightarrow> entity j = hint hintedRequest ''legalEntity'')
        \<and> (truthy (refHint hintedRequest) \<longrightarrow>
              refNumber j = (if refHint hintedRequest = jobId j then None else refHint hintedRequest)))
   \<and> truthy (ud_title (r_userData hintedRequest)) \<and> truthy (hint hintedRequest ''location'')
   \<and> truthy (hint hintedRequest ''workingTime'') \<and> truthy (hint hintedRequest ''contractType'')
   \<and> truthy (hint hintedRequest ''department'') \<and> truthy (hint hintedRequest ''legalEntity'')
   \<and> truthy (refHint hintedRequest)
   \<and> title hintedJob = Some ''Staff Engineer'' \<and> location hintedJob = Some ''Munich''
   \<and> employmentType hintedJob = Some ''Full time'' \<and> duration hintedJob = Some ''Permanent''
   \<and> department hintedJob = Some ''Research'' \<and> entity hintedJob = Some ''Acme GmbH''
   \<and> refNumber hintedJob = Some ''7781''"
proof -
  have s1: "requestUrl hintedRequest = detailUrl" by (simp add: requestUrl_def hintedRequest_def)
  have s2: "getSubdomain acmeEnv detailUrl = Inr ''acme''" by code_simp
  have s3: "findApplyUrl acmeEnv (createFieldExtractor detailPage) detailUrl
              (select (createFieldExtractor detailPage) applySelector) = Inr None" by code_simp
  have h: "jobDetailHandler acmeEnv hintedRequest detailPage emptyWorld =
      Inr (createFieldExtractor detailPage, emptyWorld\<lparr>dataset := [hintedJob]\<rparr>)"
    by (simp add: jobDetailHandler_def Let_def s1 s2 s3 emptyWorld_def hintedJob_def)
  have t: "ud_title (r_userData hintedRequest) = Some ''Staff Engineer''"
    by (simp add: hintedRequest_def)
  have l: "hint hintedRequest ''location'' = Some ''Munich''" by code_simp
  have wt: "hint hintedRequest ''workingTime'' = Some ''Full time''" by code_simp
  have ct: "hint hintedRequest ''contractType'' = Some ''Permanent''" by code_simp
  have dp: "hint hintedRequest ''department'' = Some ''Research''" by code_simp
  have le: "hint hintedRequest ''legalEntity'' = Some ''Acme GmbH''" by code_simp
  have rf: "refHint hintedRequest = Some ''7781''" by code_simp
  have ji: "jobId hintedJob = Some ''12345''"
    unfolding hintedJob_def jobData_jobId by code_simp
  have tr: "truthy (ud_title (r_userData hintedRequest))" "truthy (hint hintedRequest ''location'')"
     "truthy (hint hintedRequest ''workingTime'')" "truthy (hint hintedRequest ''contractType'')"
     "truthy (hint hintedRequest ''department'')" "truthy (hint hintedRequest ''legalEntity'')"
     "truthy (refHint hintedRequest)"
    by (simp_all add: t l wt ct dp le rf truthy_def)
  note T = jobDetailHandler_hints[of acmeEnv hintedRequest detailPage emptyWorld
             "createFieldExtractor detailPage" "emptyWorld\<lparr>dataset := [hintedJob]\<rparr>", THEN mp, OF h]
  have f1: "title hintedJob = Some ''Staff Engineer''"
    unfolding hintedJob_def using tr(1) by (simp add: jobData_fields orElse_truthy t)
  have f2: "location hintedJob = Some ''Munich''"
    unfolding hintedJob_def
    using jobData_fields(2)[of acmeEnv hintedRequest "createFieldExtractor detailPage" detailUrl "''acme''" None] tr(2)
    by (auto simp: orElse_truthy l)
  have f3: "employmentType hintedJob = Some ''Full time''"
    unfolding hintedJob_def
    using jobData_fields(3)[of acmeEnv hintedRequest "createFieldExtractor detailPage" detailUrl "''acme''" None] tr(3)
    by (auto simp: orElse_truthy wt)
  have f4: "duration hintedJob = Some ''Permanent''"
    unfolding hintedJob_def
    using jobData_fields(4)[of acmeEnv hintedRequest "createFieldExtractor detailPage" detailUrl "''acme''" None] tr(4)
    by (auto simp: orElse_truthy ct)
  have f5: "department hintedJob = Some ''Research''"
    unfolding hintedJob_def
    using jobData_fields(5)[of acmeEnv hintedRequest "createFieldExtractor detailPage" detailUrl "''acme''" None] tr(5)
    by (auto simp: orElse_truthy dp)
  have f6: "entity hintedJob = Some ''Acme GmbH''"
    unfolding hintedJob_def
    using jobData_fields(6)[of acmeEnv hintedRequest "createFieldExtractor detailPage" detailUrl "''acme''" None] tr(6)
    by (auto simp: orElse_truthy le)
  have f7: "refNumber hintedJob = Some ''7781''"
    unfolding hintedJob_def using tr(7) by (simp add: jobData_refNumber ji[unfolded hintedJob_def] rf)
  show ?thesis by (intro conjI h T tr f1 f2 f3 f4 f5 f6 f7)
qed

text \<open>
  The claim C1 as stated fails for the reference number: the hint \<open>REF #7781\<close> gives the
  record the value 7781, not the hint; and with the hint \<open>Ref #\<close>, which is not empty,
  the record holds 99, the value that the label heuristic reads from the page.
\<close>

theorem jobDetailHandler_hints_counterexample:
  "hint hintedRequest ''ref'' = Some ''REF #7781''
   \<and> jobDetailHandler acmeEnv hintedRequest detailPage emptyWorld =
        Inr (createFieldExtractor detailPage, emptyWorld\<lparr>dataset := [hintedJob]\<rparr>)
   \<and> refNumber hintedJob = Some ''7781''
   \<and> refNumber hintedJob \<noteq> hint hintedRequest ''ref''
   \<and> hint refMarkRequest ''ref'' = Some ''Ref #''
   \<and> jobDetailHandler acmeEnv refMarkRequest refPage emptyWorld =
        Inr (createFieldExtractor refPage, emptyWorld\<lparr>dataset := [refMarkJob]\<rparr>)
   \<and> getFieldByLabels (createFieldExtractor refPage)
        [''job #'', ''job number'', ''requisition'', ''req id'', ''position id'', ''opening id'',
         ''ref'', ''ref #''] = Some ''99''
   \<and> refNumber refMarkJob = Some ''99''"
proof -
  have s1: "requestUrl hintedRequest = detailUrl" "requestUrl refMarkRequest = detailUrl"
    by (simp_all add: requestUrl_def hintedRequest_def refMarkRequest_def)
  have s2: "getSubdomain acmeEnv detailUrl = Inr ''acme''" by code_simp
  have s3: "findApplyUrl acmeEnv (createFieldExtractor detailPage) detailUrl
              (select (createFieldExtractor detailPage) applySelector) = Inr None" by code_simp
  have s4: "findApplyUrl acmeEnv (createFieldExtractor refPage) detailUrl
              (select (createFieldExtractor refPage) applySelector) = Inr None" by code_simp
  have h1: "jobDetailHandler acmeEnv hintedRequest detailPage emptyWorld =
      Inr (createFieldExtractor detailPage, emptyWorld\<lparr>dataset := [hintedJob]\<rparr>)"
    by (simp add: jobDetailHandler_def Let_def s1 s2 s3 emptyWorld_def hintedJob_def)
  have h2: "jobDetailHandler acmeEnv refMarkRequest refPage emptyWorld =
      Inr (createFieldExtractor refPage, emptyWorld\<lparr>dataset := [refMarkJob]\<rparr>)"
    by (simp add: jobDetailHandler_def Let_def s1 s2 s4 emptyWorld_def refMarkJob_def)
  have c1: "hint hintedRequest ''ref'' = Some ''REF #7781''" by code_simp
  have rf: "refHint hintedRequest = Some ''7781''" by code_simp
  have ji: "jobId hintedJob = Some ''12345''"
    unfolding hintedJob_def jobData_jobId by code_simp
  have ji2: "jobId refMarkJob = Some ''12345''"
    unfolding refMarkJob_def jobData_jobId by code_simp
  have f7: "refNumber hintedJob = Some ''7781''"
    unfolding hintedJob_def by (simp add: jobData_refNumber ji[unfolded hintedJob_def] rf truthy_def)
  have c2: "hint refMarkRequest ''ref'' = Some ''Ref #''" by code_simp
  have rf2: "refHint refMarkRequest = Some []" by code_simp
  have g: "getFieldByLabels (createFieldExtractor refPage)
        [''job #'', ''job number'', ''requisition'', ''req id'', ''position id'', ''opening id'',
         ''ref'', ''ref #''] = Some ''99''" by code_simp
  have f8: "refNumber refMarkJob = Some ''99''"
    unfolding refMarkJob_def
    by (simp add: jobData_refNumber_heuristic ji2[unfolded refMarkJob_def] rf2 g orElse_def truthy_def
                  coalesce_def)
  from f7 c1 have ne: "refNumber hintedJob \<noteq> hint hintedRequest ''ref''" by simp
  show ?thesis by (intro conjI c1 h1 f7 ne c2 h2 g f8)
qed


section \<open>Claims about the request handler of main.ts\<close>

text \<open>
  C6. A response with status 404 is classified by its status alone, whatever the page
  holds and whatever handler the router would choose: the request handler returns before
  the content check and before routing, the dataset and the request queue are as they
  were, and the error samples grow by exactly one sample of type PAGE_NOT_FOUND when the
  option saveErrorSamples is set (its default) and stay as they were when it is not set.
\<close>




lemma rel_any: "rel r (\<lambda>g c c'. True)"
proof (induction r)
  case (Cls P)
  show ?case by (rule rel_weaken[OF rel_Cls]) simp
next
  case Eps
  show ?case by (rule rel_weaken[OF rel_Eps]) simp
next
  case (Cat a b)
  show ?case by (rule rel_weaken[OF rel_Cat[OF Cat.IH]]) simp
next
  case (Alt a b)
  show ?case by (rule rel_weaken[OF rel_Alt[OF Alt.IH]]) simp
next
  case (Star r)
  show ?case
  proof (rule relI)
    fix pre rest caps pre' rest' caps'
    assume "(pre', rest', caps') \<in> set (ms (Star r) (pre, rest, caps))"
    then show "\<exists>g. pre' = pre @ g \<and> rest = g @ rest' \<and> True"
    proof (induction "length rest" arbitrary: pre rest caps rule: less_induct)
      case less
      from less.prems consider (stop) "(pre', rest', caps') = (pre, rest, caps)"
        | (more) pm rm cm where "(pm, rm, cm) \<in> set (ms r (pre, rest, caps))"
            "length rm < length rest" "(pre', rest', caps') \<in> set (ms (Star r) (pm, rm, cm))"
        by (subst (asm) ms.simps) (auto simp del: ms.simps)
      then show ?case
      proof cases
        case stop
        then show ?thesis by simp
      next
        case more
        from relD[OF Star.IH more(1)] obtain g1 where g1: "pm = pre @ g1" "rest = g1 @ rm" by blast
        from less.hyps[OF more(2) more(3)] obtain g2 where g2: "pre' = pm @ g2" "rm = g2 @ rest'"
          by blast
        from g1 g2 show ?thesis by (intro exI[of _ "g1 @ g2"]) simp
      qed
    qed
  qed
next
  case (LazyStar r)
  show ?case
  proof (rule relI)
    fix pre rest caps pre' rest' caps'
    assume "(pre', rest', caps') \<in> set (ms (LazyStar r) (pre, rest, caps))"
    then show "\<exists>g. pre' = pre @ g \<and> rest = g @ rest' \<and> True"
    proof (induction "length rest" arbitrary: pre rest caps rule: less_induct)
      case less
      from less.prems consider (stop) "(pre', rest', caps') = (pre, rest, caps)"
        | (more) pm rm cm where "(pm, rm, cm) \<in> set (ms r (pre, rest, caps))"
            "length rm < length rest" "(pre', rest', caps') \<in> set (ms (LazyStar r) (pm, rm, cm))"
        by (subst (asm) ms.simps) (auto simp del: ms.simps)
      then show ?case
      proof cases
        case stop
        then show ?thesis by simp
      next
        case more
        from relD[OF LazyStar.IH more(1)] obtain g1 where g1: "pm = pre @ g1" "rest = g1 @ rm" by blast
        from less.hyps[OF more(2) more(3)] obtain g2 where g2: "pre' = pm @ g2" "rm = g2 @ rest'"
          by blast
        from g1 g2 show ?thesis by (intro exI[of _ "g1 @ g2"]) simp
      qed
    qed
  qed
next
  case (Grp k r)
  show ?case
  proof (rule relI)
    fix pre rest caps pre' rest' caps'
    assume "(pre', rest', caps') \<in> set (ms (Grp k r) (pre, rest, caps))"
    then obtain cm where "(pre', rest', cm) \<in> set (ms r (pre, rest, caps))"
      by (subst (asm) ms.simps) (auto simp del: ms.simps)
    from relD[OF Grp.IH this] show "\<exists>g. pre' = pre @ g \<and> rest = g @ rest' \<and> True" by blast
  qed
next
  case Bol
  show ?case by (rule relI) (auto split: if_splits)
next
  case Eol
  show ?case by (rule relI) (auto split: if_splits)
next
  case (Ahead r)
  show ?case by (rule relI) (auto split: list.splits)
qed

lemma needs_CatL: "needs a w \<Longrightarrow> needs (Cat a b) w"
  unfolding needs_def
  by (rule rel_weaken[OF rel_Cat[OF _ rel_any]], assumption) (auto, metis append.assoc map_append)

lemma needs_CatR: "needs b w \<Longrightarrow> needs (Cat a b) w"
  unfolding needs_def
  by (rule rel_weaken[OF rel_Cat[OF rel_any]], assumption) (auto, metis append.assoc map_append)

lemma rel_liti: "rel (liti w) (\<lambda>g c c'. map toUpperChar g = map toUpperChar w \<and> c' = c)"
proof (induction w)
  case Nil
  have "rel Eps (\<lambda>g c c'. map toUpperChar g = map toUpperChar [] \<and> c' = c)"
    by (rule rel_weaken[OF rel_Eps]) simp
  then show ?case by (simp add: liti_def seq_def)
next
  case (Cons x w)
  have "rel (Cat (chi x) (liti w)) (\<lambda>g c c'. map toUpperChar g = map toUpperChar (x # w) \<and> c' = c)"
    unfolding chi_def by (rule rel_weaken[OF rel_Cat[OF rel_Cls Cons]]) auto
  then show ?case by (simp add: liti_def seq_def)
qed

lemma needs_liti: "needs (liti w) w"
  unfolding needs_def
  by (rule rel_weaken[OF rel_liti]) (metis append_Nil append_Nil2)

lemma needs_seq_hd: "needs r w \<Longrightarrow> needs (seq (r # rs)) w"
  unfolding seq_def by (simp add: needs_CatL)

lemma needs_seq_tl: "needs (seq rs) w \<Longrightarrow> needs (seq (r # rs)) w"
  unfolding seq_def by (simp add: needs_CatR)

lemma includesStr_append: "includesStr (p @ sub @ q) sub"
proof (induction p)
  case Nil
  have "startsWith (sub @ q) sub" by (induction sub) auto
  then show ?case by (cases "sub @ q") auto
next
  case (Cons x p)
  then show ?case by simp
qed

lemma needs_test:
  assumes "needs r w" and "re_test r text"
  shows "ciIncludes text w"
proof -
  from assms(2) obtain m where m: "re_match r text = Some m" by (auto simp: re_test_match)
  from re_match_sound[OF assms(1)[unfolded needs_def] m] obtain p g q a b where
    "text = p @ g @ q" "map toUpperChar g = a @ map toUpperChar w @ b" by blast
  then have "map toUpperChar text = (map toUpperChar p @ a) @ map toUpperChar w @ (b @ map toUpperChar q)"
    by simp
  then show ?thesis unfolding ciIncludes_def using includesStr_append by metis
qed

lemma no_match: "needs r w \<Longrightarrow> \<not> ciIncludes text w \<Longrightarrow> \<not> re_test r text"
  using needs_test by blast

lemma needs_head: "needs (seq (liti w # rs)) w"
  by (rule needs_seq_hd[OF needs_liti])

lemma needs_required: "needs (seq [liti ''sign'', ws, liti ''in'', ws, liti ''required'']) ''required''"
  by (intro needs_seq_tl needs_head)

lemma errorWords_needed: "list_all2 (\<lambda>(pattern, type) w. needs pattern w) ERROR_PAGE_PATTERNS errorWords"
  unfolding ERROR_PAGE_PATTERNS_def errorWords_def
  by (simp add: needs_head needs_liti needs_required)

lemma firstSome_None: "list_all (\<lambda>x. f x = None) xs \<Longrightarrow> firstSome f xs = None"
  by (induction xs) auto

lemma no_pattern:
  assumes "list_all2 (\<lambda>(pattern, type) w. needs pattern w) ps ws0"
    and "list_all (\<lambda>w. \<not> ciIncludes text w) ws0"
  shows "list_all (\<lambda>(pattern, type). \<not> re_test pattern text) ps"
  using assms
proof (induction ps ws0 rule: list_all2_induct)
  case Nil
  show ?case by simp
next
  case (Cons x xs y ys)
  then show ?case by (cases x) (auto dest: no_match)
qed

lemma detectErrorInContent_None:
  assumes "\<not> ciIncludes html ''<title''"
    and "list_all (\<lambda>w. \<not> ciIncludes
           (toLowerCase ('' '' @ take 5000 (textOf d (select d (tags [''body'']))))) w) errorWords"
  shows "detectErrorInContent html d = None"
proof -
  have "needs titleTagRe ''<title''" unfolding titleTagRe_def by (rule needs_head)
  from no_match[OF this assms(1)] have t: "re_match titleTagRe html = None"
    by (simp add: re_test_match)
  let ?text = "toLowerCase ('' '' @ take 5000 (textOf d (select d (tags [''body'']))))"
  from no_pattern[OF errorWords_needed assms(2)]
  have "list_all (\<lambda>(pattern, type). \<not> re_test pattern ?text) ERROR_PAGE_PATTERNS" .
  then have "list_all (\<lambda>x. (case x of (pattern, type) \<Rightarrow>
        if re_test pattern ?text then Some (type, ''Detected error pattern: '' @ type) else None) = None)
      ERROR_PAGE_PATTERNS"
    by (rule list.pred_mono_strong) auto
  from firstSome_None[OF this] t show ?thesis
    by (simp add: detectErrorInContent_def Let_def)
qed

text \<open>
  C5. A response with status 200 whose body text holds the phrase ``Please sign in to
  continue'' is not detected by the content check: no pattern of ERROR_PAGE_PATTERNS
  matches it (the patterns for a sign-in page ask for ``login required'' or ``sign in
  required''). With the default configuration the page goes through the router to the
  detail handler, which pushes a record with the title of the address and an empty full
  content, and no error sample is written.
\<close>

theorem requestHandler_sign_in_page:
  "c_statusCode signInContext = Some 200
   \<and> includesStr (textOf signInPage (select signInPage (tags [''body'']))) ''Please sign in to continue''
   \<and> detectErrorInContent (c_body signInContext) (c_doc signInContext) = None
   \<and> requestHandler defaultConfig router acmeEnv signInContext emptyWorld =
        Inr (createFieldExtractor signInPage, emptyWorld\<lparr>dataset := [signInJob]\<rparr>)
   \<and> errorSamples (emptyWorld\<lparr>dataset := [signInJob]\<rparr>) = []
   \<and> url signInJob = detailUrl
   \<and> title signInJob = Some ''Senior Software Engineer''
   \<and> fullContent signInJob = []"
proof -
  have f: "trim (textOf (createFieldExtractor signInPage)
             (first (select (createFieldExtractor signInPage) mainSelector))) = []" by code_simp
  have u: "url signInJob = detailUrl" unfolding signInJob_def by (rule jobData_fields)
  have g: "fullContent signInJob = []"
    unfolding signInJob_def jobData_fields f by (rule refl)
  have t: "title signInJob = Some ''Senior Software Engineer''"
    unfolding signInJob_def jobData_fields by code_simp
  have a: "c_statusCode signInContext = Some 200" by (simp add: signInContext_def)
  have b: "includesStr (textOf signInPage (select signInPage (tags [''body''])))
             ''Please sign in to continue''" by code_simp
  have q: "c_request signInContext = plainRequest" "c_doc signInContext = signInPage"
     "c_body signInContext = ''<html><body><p>Please sign in to continue</p></body></html>''"
    by (simp_all add: signInContext_def)
  have c1: "\<not> ciIncludes ''<html><body><p>Please sign in to continue</p></body></html>'' ''<title''"
    by code_simp
  have c2: "list_all (\<lambda>w. \<not> ciIncludes
           (toLowerCase ('' '' @ take 5000 (textOf signInPage (select signInPage (tags [''body'']))))) w)
           errorWords" by code_simp
  have c: "detectErrorInContent (c_body signInContext) (c_doc signInContext) = None"
    unfolding q by (rule detectErrorInContent_None[OF c1 c2])
  have h: "remove signInPage [Compound [Class ''visibility--hidden--visually'']] = signInPage"
    by code_simp
  have l: "r_label plainRequest = Some JOB_DETAIL" by (simp add: plainRequest_def)
  have s1: "requestUrl plainRequest = detailUrl" by (simp add: requestUrl_def plainRequest_def)
  have s2: "getSubdomain acmeEnv detailUrl = Inr ''acme''" by code_simp
  have s3: "findApplyUrl acmeEnv (createFieldExtractor signInPage) detailUrl
              (select (createFieldExtractor signInPage) applySelector) = Inr None" by code_simp
  have j: "jobDetailHandler acmeEnv plainRequest signInPage emptyWorld =
        Inr (createFieldExtractor signInPage, emptyWorld\<lparr>dataset := [signInJob]\<rparr>)"
    by (simp add: jobDetailHandler_def Let_def s1 s2 s3 emptyWorld_def signInJob_def)
  have r: "requestHandler defaultConfig router acmeEnv signInContext emptyWorld =
        Inr (createFieldExtractor signInPage, emptyWorld\<lparr>dataset := [signInJob]\<rparr>)"
    unfolding requestHandler_def Let_def c a by (simp add: q h router_def l j)
  have e: "errorSamples (emptyWorld\<lparr>dataset := [signInJob]\<rparr>) = []" by (simp add: emptyWorld_def)
  show ?thesis by (intro conjI a b c r e u t g)
qed

lemma cardStep_inv:
  assumes "map t_url (fst st) = snd st" "distinct (snd st)"
    and "\<forall>t \<in> set (fst st). t_label t = Some JOB_DETAIL"
  shows "map t_url (fst (cardStep b d st p)) = snd (cardStep b d st p)
       \<and> distinct (snd (cardStep b d st p))
       \<and> (\<forall>t \<in> set (fst (cardStep b d st p)). t_label t = Some JOB_DETAIL)
       \<and> set (snd (cardStep b d st p)) =
           set (snd st) \<union> set (map (resolveUrl b) (List.map_filter (cardHref d) [p]))"
  using assms by (auto simp: cardStep_def Let_def List.map_filter_simps split: option.splits)

lemma cardFold_inv:
  assumes "map t_url (fst st) = snd st" "distinct (snd st)"
    and "\<forall>t \<in> set (fst st). t_label t = Some JOB_DETAIL"
  shows "map t_url (fst (foldl (cardStep b d) st ps)) = snd (foldl (cardStep b d) st ps)
       \<and> distinct (snd (foldl (cardStep b d) st ps))
       \<and> (\<forall>t \<in> set (fst (foldl (cardStep b d) st ps)). t_label t = Some JOB_DETAIL)
       \<and> set (snd (foldl (cardStep b d) st ps)) =
           set (snd st) \<union> set (map (resolveUrl b) (List.map_filter (cardHref d) ps))"
  using assms
proof (induction ps arbitrary: st)
  case Nil
  then show ?case by (simp add: List.map_filter_simps)
next
  case (Cons p ps)
  note s = cardStep_inv[OF Cons.prems, of b d p]
  from Cons.IH[of "cardStep b d st p"] s
  have "map t_url (fst (foldl (cardStep b d) (cardStep b d st p) ps)) =
          snd (foldl (cardStep b d) (cardStep b d st p) ps)
       \<and> distinct (snd (foldl (cardStep b d) (cardStep b d st p) ps))
       \<and> (\<forall>t \<in> set (fst (foldl (cardStep b d) (cardStep b d st p) ps)). t_label t = Some JOB_DETAIL)
       \<and> set (snd (foldl (cardStep b d) (cardStep b d st p) ps)) =
           set (snd (cardStep b d st p)) \<union> set (map (resolveUrl b) (List.map_filter (cardHref d) ps))"
    by blast
  with s show ?case
    by (cases "cardHref d p") (auto simp: List.map_filter_simps)
qed

lemma jobLinks_urls:
  "distinct (map t_url (jobLinks b d))"
  "set (map t_url (jobLinks b d)) = set (cardUrls b d)"
  "detailTasks (jobLinks b d) = jobLinks b d"
proof -
  note f = cardFold_inv[of "([], [])" b d "select d cardSelector", simplified]
  from f show "distinct (map t_url (jobLinks b d))" by (simp add: jobLinks_def)
  from f show "set (map t_url (jobLinks b d)) = set (cardUrls b d)"
    by (simp add: jobLinks_def cardUrls_def)
  from f show "detailTasks (jobLinks b d) = jobLinks b d"
    by (simp add: jobLinks_def detailTasks_def)
qed

lemma detailTasks_pages: "detailTasks (map (linkTask LISTING) us) = []"
  by (simp add: detailTasks_def linkTask_def)

lemma detailTasks_append: "detailTasks (xs @ ys) = detailTasks xs @ detailTasks ys"
  by (simp add: detailTasks_def)

lemma listingHandler_Inr:
  assumes "listingHandler e r d w = Inr (d', w')"
  shows "\<exists>b. getBaseUrl e (requestUrl r) = Inr b \<and> d' = d
           \<and> w' = w\<lparr>requestQueue := requestQueue w @ jobLinks b d
                                       @ map (linkTask LISTING) (paginationLinks b d)\<rparr>"
  using assms
  by (auto simp: listingHandler_def Let_def enqueue_def split: sum.splits if_splits)

lemma listingHandler_returns:
  assumes "urlParser e (requestUrl r) \<noteq> None"
  shows "\<exists>w'. listingHandler e r d w = Inr (d, w')"
  using assms
  by (auto simp: listingHandler_def getBaseUrl_def getSubdomain_def Let_def split: option.splits)

section \<open>Claims about the listing handler\<close>

text \<open>
  C7. On every listing page the listing handler hands over one request with the label
  JOB_DETAIL for each distinct absolute address among the links of the cards of the page:
  the addresses of these requests are pairwise different, they are the addresses of the
  cards, and their number is the number of distinct addresses. Requests for further
  listing pages carry the label LISTING. A page without card links gives no JOB_DETAIL
  request. The handler pushes no record and writes no error sample, and it returns
  whenever the address of the page can be parsed.
\<close>

text \<open>
  A listing page without cards passes the request handler of main.ts without a request,
  a record or an error sample.
\<close>

theorem listingHandler_dedup:
  "(urlParser e (requestUrl r) \<noteq> None \<longrightarrow> (\<exists>w'. listingHandler e r d w = Inr (d, w')))
   \<and> (\<forall>d' w'. listingHandler e r d w = Inr (d', w') \<longrightarrow>
         (\<exists>baseUrl new. getBaseUrl e (requestUrl r) = Inr baseUrl
            \<and> requestQueue w' = requestQueue w @ new
            \<and> detailTasks new = jobLinks baseUrl d
            \<and> distinct (map t_url (detailTasks new))
            \<and> set (map t_url (detailTasks new)) = set (cardUrls baseUrl d)
            \<and> length (detailTasks new) = card (set (cardUrls baseUrl d))
            \<and> (cardUrls baseUrl d = [] \<longrightarrow> detailTasks new = [])
            \<and> dataset w' = dataset w \<and> errorSamples w' = errorSamples w))"
proof (intro conjI allI impI)
  assume "urlParser e (requestUrl r) \<noteq> None"
  then show "\<exists>w'. listingHandler e r d w = Inr (d, w')" by (rule listingHandler_returns)
next
  fix d' w'
  assume "listingHandler e r d w = Inr (d', w')"
  from listingHandler_Inr[OF this] obtain b where
    b: "getBaseUrl e (requestUrl r) = Inr b"
    and w': "w' = w\<lparr>requestQueue := requestQueue w @ jobLinks b d
                                       @ map (linkTask LISTING) (paginationLinks b d)\<rparr>"
    by blast
  let ?new = "jobLinks b d @ map (linkTask LISTING) (paginationLinks b d)"
  have dt: "detailTasks ?new = jobLinks b d"
    by (simp add: detailTasks_append detailTasks_pages jobLinks_urls)
  have di: "distinct (map t_url (jobLinks b d))" by (rule jobLinks_urls)
  have se: "set (map t_url (jobLinks b d)) = set (cardUrls b d)" by (rule jobLinks_urls)
  have "length (jobLinks b d) = length (map t_url (jobLinks b d))" by simp
  also have "\<dots> = card (set (map t_url (jobLinks b d)))" using di by (rule distinct_card[symmetric])
  finally have le: "length (jobLinks b d) = card (set (cardUrls b d))" unfolding se .
  have em: "cardUrls b d = [] \<longrightarrow> jobLinks b d = []" using le by auto
  show "\<exists>baseUrl new. getBaseUrl e (requestUrl r) = Inr baseUrl
            \<and> requestQueue w' = requestQueue w @ new
            \<and> detailTasks new = jobLinks baseUrl d
            \<and> distinct (map t_url (detailTasks new))
            \<and> set (map t_url (detailTasks new)) = set (cardUrls baseUrl d)
            \<and> length (detailTasks new) = card (set (cardUrls baseUrl d))
            \<and> (cardUrls baseUrl d = [] \<longrightarrow> detailTasks new = [])
            \<and> dataset w' = dataset w \<and> errorSamples w' = errorSamples w"
    apply (rule exI[of _ b], rule exI[of _ ?new])
    unfolding dt using b di se le em by (simp add: w')
qed

theorem listingHandler_dedup_witness:
  "urlParser acmeEnv (requestUrl listingRequest) \<noteq> None
   \<and> cardUrls ''https://acme.avature.net'' listingPage =
        [''https://acme.avature.net/careers/JobDetail/Engineer/1'',
         ''https://acme.avature.net/careers/JobDetail/Analyst/2'',
         ''https://acme.avature.net/careers/JobDetail/Designer/3'',
         ''https://acme.avature.net/careers/JobDetail/Engineer/1'']
   \<and> listingHandler acmeEnv listingRequest listingPage emptyWorld =
        Inr (listingPage, emptyWorld\<lparr>requestQueue :=
          [cardTask ''https://acme.avature.net/careers/JobDetail/Engineer/1'' ''Engineer'',
           cardTask ''https://acme.avature.net/careers/JobDetail/Analyst/2'' ''Analyst'',
           cardTask ''https://acme.avature.net/careers/JobDetail/Designer/3'' ''Designer'',
           linkTask LISTING ''https://acme.avature.net/careers/SearchJobs?jobOffset=10'']\<rparr>)
   \<and> length (detailTasks
          [cardTask ''https://acme.avature.net/careers/JobDetail/Engineer/1'' ''Engineer'',
           cardTask ''https://acme.avature.net/careers/JobDetail/Analyst/2'' ''Analyst'',
           cardTask ''https://acme.avature.net/careers/JobDetail/Designer/3'' ''Designer'',
           linkTask LISTING ''https://acme.avature.net/careers/SearchJobs?jobOffset=10'']) = 3
   \<and> (\<exists>w'. listingHandler acmeEnv listingRequest listingPage emptyWorld = Inr (listingPage, w'))
   \<and> (\<exists>baseUrl new. getBaseUrl acmeEnv (requestUrl listingRequest) = Inr baseUrl
          \<and> requestQueue (emptyWorld\<lparr>requestQueue :=
               [cardTask ''https://acme.avature.net/careers/JobDetail/Engineer/1'' ''Engineer'',
                cardTask ''https://acme.avature.net/careers/JobDetail/Analyst/2'' ''Analyst'',
                cardTask ''https://acme.avature.net/careers/JobDetail/Designer/3'' ''Designer'',
                linkTask LISTING ''https://acme.avature.net/careers/SearchJobs?jobOffset=10'']\<rparr>)
              = requestQueue emptyWorld @ new
          \<and> detailTasks new = jobLinks baseUrl listingPage
          \<and> distinct (map t_url (detailTasks new))
          \<and> set (map t_url (detailTasks new)) = set (cardUrls baseUrl listingPage)
          \<and> length (detailTasks new) = card (set (cardUrls baseUrl listingPage)))"
proof -
  have p: "urlParser acmeEnv (requestUrl listingRequest) \<noteq> None" by code_simp
  have c: "cardUrls ''https://acme.avature.net'' listingPage =
        [''https://acme.avature.net/careers/JobDetail/Engineer/1'',
         ''https://acme.avature.net/careers/JobDetail/Analyst/2'',
         ''https://acme.avature.net/careers/JobDetail/Designer/3'',
         ''https://acme.avature.net/careers/JobDetail/Engineer/1'']" by code_simp
  have s0: "requestUrl listingRequest = listingUrl"
    by (simp add: requestUrl_def listingRequest_def)
  have s1: "getBaseUrl acmeEnv listingUrl = Inr ''https://acme.avature.net''" by code_simp
  have s2: "getSubdomain acmeEnv listingUrl = Inr ''acme''" by code_simp
  have s3: "jobLinks ''https://acme.avature.net'' listingPage =
          [cardTask ''https://acme.avature.net/careers/JobDetail/Engineer/1'' ''Engineer'',
           cardTask ''https://acme.avature.net/careers/JobDetail/Analyst/2'' ''Analyst'',
           cardTask ''https://acme.avature.net/careers/JobDetail/Designer/3'' ''Designer'']"
    by code_simp
  have s4: "paginationLinks ''https://acme.avature.net'' listingPage =
          [''https://acme.avature.net/careers/SearchJobs?jobOffset=10'']" by code_simp
  have h: "listingHandler acmeEnv listingRequest listingPage emptyWorld =
        Inr (listingPage, emptyWorld\<lparr>requestQueue :=
          [cardTask ''https://acme.avature.net/careers/JobDetail/Engineer/1'' ''Engineer'',
           cardTask ''https://acme.avature.net/careers/JobDetail/Analyst/2'' ''Analyst'',
           cardTask ''https://acme.avature.net/careers/JobDetail/Designer/3'' ''Designer'',
           linkTask LISTING ''https://acme.avature.net/careers/SearchJobs?jobOffset=10'']\<rparr>)"
    by (simp add: listingHandler_def Let_def s0 s1 s2 s3 s4 enqueue_def emptyWorld_def)
  have l: "length (detailTasks
          [cardTask ''https://acme.avature.net/careers/JobDetail/Engineer/1'' ''Engineer'',
           cardTask ''https://acme.avature.net/careers/JobDetail/Analyst/2'' ''Analyst'',
           cardTask ''https://acme.avature.net/careers/JobDetail/Designer/3'' ''Designer'',
           linkTask LISTING ''https://acme.avature.net/careers/SearchJobs?jobOffset=10'']) = 3"
    by (simp add: detailTasks_def cardTask_def linkTask_def)
  note T = listingHandler_dedup[of acmeEnv listingRequest listingPage emptyWorld]
  note T1 = T[THEN conjunct1, THEN mp, OF p]
  note T2 = T[THEN conjunct2, THEN spec, THEN spec, THEN mp, OF h]
  from T2 have t2: "\<exists>baseUrl new. getBaseUrl acmeEnv (requestUrl listingRequest) = Inr baseUrl
          \<and> requestQueue (emptyWorld\<lparr>requestQueue :=
               [cardTask ''https://acme.avature.net/careers/JobDetail/Engineer/1'' ''Engineer'',
                cardTask ''https://acme.avature.net/careers/JobDetail/Analyst/2'' ''Analyst'',
                cardTask ''https://acme.avature.net/careers/JobDetail/Designer/3'' ''Designer'',
                linkTask LISTING ''https://acme.avature.net/careers/SearchJobs?jobOffset=10'']\<rparr>)
              = requestQueue emptyWorld @ new
          \<and> detailTasks new = jobLinks baseUrl listingPage
          \<and> distinct (map t_url (detailTasks new))
          \<and> set (map t_url (detailTasks new)) = set (cardUrls baseUrl listingPage)
          \<and> length (detailTasks new) = card (set (cardUrls baseUrl listingPage))"
    by (elim exE conjE) (intro exI conjI, assumption+)
  show ?thesis by (intro conjI p c h l T1 t2)
qed

lemma listingHandler_no_links:
  "cardUrls ''https://acme.avature.net'' emptyListingPage = []
   \<and> listingHandler acmeEnv listingRequest emptyListingPage emptyWorld = Inr (emptyListingPage, emptyWorld)
   \<and> requestHandler defaultConfig router acmeEnv emptyListingContext emptyWorld =
        Inr (emptyListingPage, emptyWorld)"
proof -
  have c: "cardUrls ''https://acme.avature.net'' emptyListingPage = []" by code_simp
  have s0: "requestUrl listingRequest = listingUrl"
    by (simp add: requestUrl_def listingRequest_def)
  have s1: "getBaseUrl acmeEnv listingUrl = Inr ''https://acme.avature.net''" by code_simp
  have s2: "getSubdomain acmeEnv listingUrl = Inr ''acme''" by code_simp
  have s3: "jobLinks ''https://acme.avature.net'' emptyListingPage = []" by code_simp
  have s4: "paginationLinks ''https://acme.avature.net'' emptyListingPage = []" by code_simp
  have h: "listingHandler acmeEnv listingRequest emptyListingPage emptyWorld =
             Inr (emptyListingPage, emptyWorld)"
    by (simp add: listingHandler_def Let_def s0 s1 s2 s3 s4)
  have q: "c_request emptyListingContext = listingRequest" "c_doc emptyListingContext = emptyListingPage"
     "c_body emptyListingContext =
        ''<html><body><div class=\"section__content__results\"><p>No open roles</p></div></body></html>''"
     "c_statusCode emptyListingContext = Some 200"
    by (simp_all add: emptyListingContext_def)
  have c1: "\<not> ciIncludes
      ''<html><body><div class=\"section__content__results\"><p>No open roles</p></div></body></html>''
      ''<title''" by code_simp
  have c2: "list_all (\<lambda>w. \<not> ciIncludes
           (toLowerCase ('' '' @ take 5000
              (textOf emptyListingPage (select emptyListingPage (tags [''body'']))))) w)
           errorWords" by code_simp
  have d: "detectErrorInContent (c_body emptyListingContext) (c_doc emptyListingContext) = None"
    unfolding q by (rule detectErrorInContent_None[OF c1 c2])
  have r: "remove emptyListingPage [Compound [Class ''visibility--hidden--visually'']] = emptyListingPage"
    by code_simp
  have l: "r_label listingRequest = Some LISTING" by (simp add: listingRequest_def)
  have "requestHandler defaultConfig router acmeEnv emptyListingContext emptyWorld =
        Inr (emptyListingPage, emptyWorld)"
    unfolding requestHandler_def Let_def d by (simp add: q r router_def l h)
  with c h show ?thesis by (intro conjI)
qed

end
